theory Spec2Isabelle
  imports Complex_Main "HOL-Library.AList"
begin

section \<open>Data model (sim/types.py)\<close>

text \<open>
  The simulator is Python. Its \<open>float\<close> values are modelled as \<open>real\<close> numbers and its
  \<open>int\<close> values as \<open>int\<close>; nothing below depends on floating-point rounding. A Python
  dictionary that the code iterates over is an association list in insertion order
  (\<open>map_of\<close> looks a key up, \<open>AList.update\<close> is the assignment \<open>d[k] = v\<close>); the
  dictionaries of the world state, which the engine only reads and writes by key, are maps.
  Every exception the modelled code can raise is a value of \<open>py_error\<close>, returned as \<open>Inl\<close>.
  Definitions carry the names of the source; the leading underscore of a private name
  is dropped, and a loop or a stretch of a long method has a name of its own.
\<close>

type_synonym ingredient_name = string
type_synonym product_name = string
type_synonym task_name = string

datatype py_error = KeyError | IndexError | ValueError

record delivery =
  delivery_arrival_turn :: int
  quantities :: "(ingredient_name \<times> int) list"

record order =
  items :: "(product_name \<times> int) list"
  arrival_turn :: int

record order_profile =
  name :: string
  profile_items :: "(product_name \<times> int) list"

record order_mix_segment =
  from_turn :: int
  to_turn :: int
  profile_probs :: "(string \<times> real) list"

record employee_assignment =
  employee_id :: int
  task :: task_name

record initial_state =
  initial_cash :: real
  initial_stock :: "(ingredient_name \<times> real) list"
  initial_prices :: "(product_name \<times> real) list"
  initial_worker_assignments :: "employee_assignment list option"

record demand_params =
  price_ref :: "(product_name \<times> real) list"
  elasticity :: "(product_name \<times> real) list"
  noise_std :: real
  customers_curve :: "real list"
  elasticity_customers :: real
  order_profiles :: "(string \<times> order_profile) list"
  order_mix_segments :: "order_mix_segment list"

record worker_capacities =
  customers_per_turn :: real
  txistorra_strips_per_turn :: real
  sidra_bottles_per_turn :: real

record config =
  num_turns :: int
  lead_time :: int
  seed :: int
  initial :: initial_state
  costs :: "(ingredient_name \<times> real) list"
  ingredient_weights :: "(ingredient_name \<times> real) list"
  worker_max_carry_weight :: real
  recipes :: "(product_name \<times> (ingredient_name \<times> real) list) list"
  demand :: demand_params
  num_workers :: int

record turn_summary =
  ts_queue_start :: nat
  ts_new_customers :: int
  ts_served_customers :: nat
  ts_queue_end :: nat
  ts_dropped_from_queue :: nat
  ts_orders_served :: "(product_name \<times> int) list list"
  ts_unserved_orders :: "(product_name \<times> int) list list"
  ts_blocked_by_customers_capacity :: bool
  ts_blocked_by_grill_capacity :: bool
  ts_blocked_by_sidra_capacity :: bool
  ts_blocked_by_stock :: bool
  ts_messages :: "nat list"
  ts_worker_assignments :: "employee_assignment list"
  ts_worker_capacities :: worker_capacities

text \<open>
  \<open>ts_messages\<close>: the only message the engine composes is the queue-abandonment notice;
  it is recorded by the number of customers it reports.
\<close>

record state =
  turn :: int
  cash :: real
  stock_on_hand :: "ingredient_name \<rightharpoonup> real"
  inbound_deliveries :: "delivery list"
  prices :: "product_name \<rightharpoonup> real"
  last_turn :: "turn_summary option"
  order_queue :: "order list"
  worker_assignments :: "employee_assignment list"
  worker_capacities :: worker_capacities
  workers_on_trip :: "int \<rightharpoonup> int"

section \<open>Demand sampler (sim/demand.py)\<close>

text \<open>
  The pseudorandom generator is numpy's and is not part of the repository: its two
  sampling calls and its seeding are parameters of the model. \<open>lognormal R sigma g\<close> is
  \<open>rng.lognormal(mean=0.0, sigma=sigma)\<close> and \<open>choice R n p g\<close> is \<open>rng.choice(n, p=p)\<close>,
  each returning the draw and the generator's next state.
\<close>

record 'g rng_ops =
  lognormal :: "real \<Rightarrow> 'g \<Rightarrow> real \<times> 'g"
  choice :: "nat \<Rightarrow> real list \<Rightarrow> 'g \<Rightarrow> nat \<times> 'g"
  default_rng :: "int \<Rightarrow> 'g"

definition py_index :: "'a list \<Rightarrow> int \<Rightarrow> py_error + 'a" where
  \<comment> \<open>the subscript \<open>xs[i]\<close>, which counts a negative \<open>i\<close> from the end of the list\<close>
  "py_index xs i =
     (if 0 \<le> i \<and> i < int (length xs) then Inr (xs ! nat i)
      else if i < 0 \<and> - int (length xs) \<le> i then Inr (xs ! nat (int (length xs) + i))
      else Inl IndexError)"

definition py_round :: "real \<Rightarrow> int" where
  \<comment> \<open>\<open>int(round(x))\<close>: Python rounds a tie to the even neighbour\<close>
  "py_round x =
     (let f = \<lfloor>x\<rfloor>; d = x - of_int f
      in if d < 1 / 2 then f else if 1 / 2 < d then f + 1 else if even f then f else f + 1)"

definition find_order_mix_segment :: "demand_params \<Rightarrow> int \<Rightarrow> (string \<times> real) list" where
  "find_order_mix_segment params turn_idx =
     (case find (\<lambda>seg. from_turn seg \<le> turn_idx \<and> turn_idx \<le> to_turn seg)
             (order_mix_segments params) of
        Some seg \<Rightarrow> profile_probs seg
      | None \<Rightarrow>
          if order_mix_segments params \<noteq> [] then profile_probs (last (order_mix_segments params))
          else if order_profiles params \<noteq> [] then
            map (\<lambda>(name, _). (name, 1 / real (length (order_profiles params))))
              (order_profiles params)
          else [])"

text \<open>\<open>ticket_profile\<close> is the inner loop of \<open>_compute_expected_ticket\<close> over a profile's
  items, \<open>expected_loop\<close> the outer loop over the profile probabilities and
  \<open>price_mean_loop\<close> the fallback loop over the three products.\<close>

fun ticket_profile ::
  "(product_name \<rightharpoonup> real) \<Rightarrow> (product_name \<times> int) list \<Rightarrow> real \<Rightarrow> py_error + real" where
  "ticket_profile prs [] acc = Inr acc"
| "ticket_profile prs ((product, qty) # rest) acc =
     (case prs product of
        None \<Rightarrow> Inl KeyError
      | Some p \<Rightarrow> ticket_profile prs rest (acc + real_of_int qty * p))"

fun expected_loop ::
  "(product_name \<rightharpoonup> real) \<Rightarrow> (string \<times> order_profile) list \<Rightarrow> (string \<times> real) list \<Rightarrow> real
     \<Rightarrow> py_error + real" where
  "expected_loop prs profiles [] expected = Inr expected"
| "expected_loop prs profiles ((profile_name, prob) # rest) expected =
     (case map_of profiles profile_name of
        None \<Rightarrow> Inl KeyError
      | Some profile \<Rightarrow>
          (case ticket_profile prs (profile_items profile) 0 of
             Inl e \<Rightarrow> Inl e
           | Inr ticket \<Rightarrow> expected_loop prs profiles rest (expected + prob * ticket)))"

fun price_mean_loop ::
  "(product_name \<rightharpoonup> real) \<Rightarrow> product_name list \<Rightarrow> real \<Rightarrow> py_error + real" where
  "price_mean_loop prs [] expected = Inr expected"
| "price_mean_loop prs (p # rest) expected =
     (case prs p of
        None \<Rightarrow> Inl KeyError
      | Some v \<Rightarrow> price_mean_loop prs rest (expected + v / 3))"

definition compute_expected_ticket ::
  "(product_name \<rightharpoonup> real) \<Rightarrow> demand_params \<Rightarrow> int \<Rightarrow> py_error + real" where
  "compute_expected_ticket prs params turn_idx =
     (let probs = find_order_mix_segment params turn_idx
      in if probs = [] then price_mean_loop prs [''pintxo'', ''bocadillo'', ''sidra''] 0
         else expected_loop prs (order_profiles params) probs 0)"

definition sample_customers_for_agent ::
  "'g rng_ops \<Rightarrow> (product_name \<rightharpoonup> real) \<Rightarrow> demand_params \<Rightarrow> int \<Rightarrow> 'g \<Rightarrow> py_error + (int \<times> 'g)" where
  "sample_customers_for_agent R prs params turn_idx g =
     (case py_index (customers_curve params) turn_idx of
        Inl e \<Rightarrow> Inl e
      | Inr market_customers \<Rightarrow>
     (case compute_expected_ticket prs params turn_idx of
        Inl e \<Rightarrow> Inl e
      | Inr ticket_agent0 \<Rightarrow>
     (case compute_expected_ticket (map_of (price_ref params)) params turn_idx of
        Inl e \<Rightarrow> Inl e
      | Inr ticket_comp0 \<Rightarrow>
          (let epsilon_c = elasticity_customers params;
               ticket_agent = max ticket_agent0 (1 / 10 ^ 6);
               ticket_comp = max ticket_comp0 (1 / 10 ^ 6);
               a_agent = (ticket_agent / ticket_comp) powr (- epsilon_c);
               a_comp = 1;
               total_attr = a_agent + 3 * a_comp;
               share_agent = (if total_attr \<le> 1 / 10 ^ 12 then 0 else a_agent / total_attr);
               expected_customers_agent = market_customers * share_agent;
               (noise, g') = (if noise_std params > 0 then lognormal R (noise_std params) g
                              else (1, g));
               q = max 0 (expected_customers_agent * noise)
           in Inr (py_round q, g')))))"

definition sample_profile ::
  "'g rng_ops \<Rightarrow> (string \<times> real) list \<Rightarrow> 'g \<Rightarrow> py_error + (string \<times> 'g)" where
  "sample_profile R probs0 g =
     (let names = map fst probs0;
          probs = map snd probs0;
          total = sum_list probs;
          probs' = (if total \<le> 0 then map (\<lambda>_. 1 / real (length probs)) probs
                    else map (\<lambda>p. p / total) probs);
          (idx, g') = choice R (length names) probs' g
      in if idx < length names then Inr (names ! idx, g') else Inl IndexError)"

fun add_items :: "(product_name \<times> int) list \<Rightarrow> (product_name \<times> int) list \<Rightarrow> (product_name \<times> int) list" where
  \<comment> \<open>\<open>for product, qty in items.items(): d[product] = d.get(product, 0) + int(qty)\<close>\<close>
  "add_items d [] = d"
| "add_items d ((product, qty) # rest) =
     add_items (AList.update product ((case map_of d product of None \<Rightarrow> 0 | Some u \<Rightarrow> u) + qty) d) rest"

record new_batch =
  orders :: "order list"
  new_customers :: int
  demand_products :: "(product_name \<times> int) list"

fun orders_loop ::
  "'g rng_ops \<Rightarrow> demand_params \<Rightarrow> (string \<times> real) list \<Rightarrow> int \<Rightarrow> nat \<Rightarrow> 'g \<Rightarrow> order list
     \<Rightarrow> (product_name \<times> int) list \<Rightarrow> py_error + (order list \<times> (product_name \<times> int) list \<times> 'g)" where
  "orders_loop R params probs turn_idx 0 g os dem = Inr (os, dem, g)"
| "orders_loop R params probs turn_idx (Suc n) g os dem =
     (if probs = [] then Inr (os, dem, g)
      else (case sample_profile R probs g of
        Inl e \<Rightarrow> Inl e
      | Inr (profile_name, g') \<Rightarrow>
          (case map_of (order_profiles params) profile_name of
             None \<Rightarrow> Inl KeyError
           | Some profile \<Rightarrow>
               orders_loop R params probs turn_idx n g'
                 (os @ [\<lparr>items = profile_items profile, arrival_turn = turn_idx\<rparr>])
                 (add_items dem (profile_items profile)))))"

definition sample_orders_for_agent ::
  "'g rng_ops \<Rightarrow> (product_name \<rightharpoonup> real) \<Rightarrow> demand_params \<Rightarrow> int \<Rightarrow> 'g \<Rightarrow> py_error + (new_batch \<times> 'g)" where
  "sample_orders_for_agent R prs params turn_idx g =
     (case sample_customers_for_agent R prs params turn_idx g of
        Inl e \<Rightarrow> Inl e
      | Inr (n, g1) \<Rightarrow>
          (case orders_loop R params (find_order_mix_segment params turn_idx) turn_idx (nat n) g1 []
                  [(''pintxo'', 0), (''bocadillo'', 0), (''sidra'', 0)] of
             Inl e \<Rightarrow> Inl e
           | Inr (os, dem, g2) \<Rightarrow>
               Inr (\<lparr>orders = os, new_customers = n, demand_products = dem\<rparr>, g2)))"

section \<open>Mutation interface and turn engine (sim/engine.py)\<close>

definition TURN_MINUTES :: int where
  "TURN_MINUTES = 15"

definition MAX_QUEUE_WAIT_TURNS :: int where
  "MAX_QUEUE_WAIT_TURNS = 2"

fun show_nat :: "nat \<Rightarrow> string" where
  "show_nat n =
     (if n < 10 then [char_of (48 + n)] else show_nat (n div 10) @ [char_of (48 + n mod 10)])"

declare show_nat.simps [simp del]

definition fmt02d :: "int \<Rightarrow> string" where
  \<comment> \<open>the format \<open>{:02d}\<close>: zero-padded to two characters, the sign counted\<close>
  "fmt02d n =
     (if n < 0 then CHR ''-'' # show_nat (nat (- n))
      else if n < 10 then CHR ''0'' # show_nat (nat n)
      else show_nat (nat n))"

definition format_time :: "int \<Rightarrow> string" where
  "format_time turn_idx =
     (let start_minutes = 10 * 60;
          minutes = start_minutes + TURN_MINUTES * turn_idx;
          h = minutes div 60;
          m = minutes mod 60
      in fmt02d h @ '':'' @ fmt02d m)"

subsection \<open>Tool results and the action trace\<close>

text \<open>
  A \<open>ToolResult\<close> is a dictionary whose keys are all optional but \<open>ok\<close>. Its \<open>reason\<close> is a
  message built from a fixed template and at most two values; it is modelled by the
  template and its values rather than by the rendered text.
\<close>

datatype reason_text =
    Precio_negativo product_name
  | Cantidad_negativa ingredient_name
  | Debe_enviar_trabajador
  | ID_trabajador_invalido int
  | ID_trabajador_duplicado int
  | Trabajador_ya_de_viaje int
  | Compra_excede_capacidad_de_carga
  | Compra_rechazada_coste_mayor_que_caja
  | Employee_id_invalido int
  | Trabajador_de_viaje_no_asignable int
  | Employee_id_duplicado int
  | Tarea_invalida task_name
  | Maximo_para int task_name

record inbound_delivery_view =
  arrival_time :: string
  view_quantities :: "(ingredient_name \<times> int) list"

record tool_result =
  ok :: bool
  reason :: "reason_text option"
  r_cash :: "real option"
  r_stock_on_hand :: "(ingredient_name \<rightharpoonup> real) option"
  r_inbound_deliveries :: "inbound_delivery_view list option"
  current_prices :: "(product_name \<rightharpoonup> real) option"
  accepted :: "bool option"
  r_worker_assignments :: "employee_assignment list option"
  r_workers_on_trip :: "(int \<rightharpoonup> int) option"

definition ToolResult :: "bool \<Rightarrow> tool_result" where
  "ToolResult b =
     \<lparr>ok = b, reason = None, r_cash = None, r_stock_on_hand = None, r_inbound_deliveries = None,
      current_prices = None, accepted = None, r_worker_assignments = None,
      r_workers_on_trip = None\<rparr>"

text \<open>
  What a decision-maker can invoke. \<open>call_id\<close> and \<open>arguments\<close> are the two optional
  parameters every operation passes on to the trace; \<open>arguments\<close> is an opaque dictionary,
  and the trace records \<open>arguments or {...}\<close>: the given dictionary unless it is missing
  or empty, otherwise the operation's own parameters.
\<close>

datatype tool_call =
    Get_status
  | Get_prices
  | Set_prices "(product_name \<times> real) list"
  | Place_order "(ingredient_name \<times> int) list" "int list"
  | Assign_workers "employee_assignment list"
  | End_turn

record invocation =
  call :: tool_call
  call_id :: string
  arguments :: "(string \<times> string) list option"

datatype recorded_arguments = Given "(string \<times> string) list" | Parameters tool_call

definition arguments_or :: "(string \<times> string) list option \<Rightarrow> tool_call \<Rightarrow> recorded_arguments" where
  "arguments_or args c = (case args of None \<Rightarrow> Parameters c | Some a \<Rightarrow> if a = [] then Parameters c else Given a)"

record trace_entry =
  entry_id :: string
  entry_name :: string
  entry_arguments :: recorded_arguments
  entry_result :: tool_result

record 'g simulator =
  config :: config
  rng :: 'g
  state :: state
  previous_response_id :: "string option"
  agent_actions_trace :: "trace_entry list"
  pending_tool_outputs :: "string list"
  metrics_tool_calls :: int
  metrics_tokens_in :: int
  metrics_tokens_out :: int
  metrics_cost_eur :: real
  end_turn_requested :: bool

definition record_tool_call ::
  "string \<Rightarrow> string \<Rightarrow> recorded_arguments \<Rightarrow> tool_result \<Rightarrow> 'g simulator \<Rightarrow> 'g simulator" where
  "record_tool_call nm cid args result s =
     s\<lparr>agent_actions_trace := agent_actions_trace s @
         [\<lparr>entry_id = cid, entry_name = nm, entry_arguments = args, entry_result = result\<rparr>]\<rparr>"

definition count_call :: "'g simulator \<Rightarrow> 'g simulator" where
  \<comment> \<open>\<open>self.engine.metrics_tool_calls += 1\<close>\<close>
  "count_call s = s\<lparr>metrics_tool_calls := metrics_tool_calls s + 1\<rparr>"

subsection \<open>Worker assignments and capacities\<close>

definition normalize_assignments :: "employee_assignment list \<Rightarrow> employee_assignment list" where
  "normalize_assignments assignments = sort_key employee_id assignments"

fun count_tasks_loop :: "employee_assignment list \<Rightarrow> (task_name \<times> int) list \<Rightarrow> (task_name \<times> int) list" where
  "count_tasks_loop [] counts = counts"
| "count_tasks_loop (a # rest) counts =
     count_tasks_loop rest
       (AList.update (task a) ((case map_of counts (task a) of None \<Rightarrow> 0 | Some c \<Rightarrow> c) + 1) counts)"

definition zero_counts :: "(task_name \<times> int) list" where
  "zero_counts =
     [(''atender_clientes'', 0), (''freir_txistorra'', 0), (''preparar_pintxos'', 0),
      (''abrir_sidra'', 0), (''comprar'', 0)]"

definition count_tasks :: "employee_assignment list \<Rightarrow> (task_name \<times> int) list" where
  "count_tasks assignments = count_tasks_loop assignments zero_counts"

definition count_of :: "(task_name \<times> int) list \<Rightarrow> task_name \<Rightarrow> int" where
  \<comment> \<open>\<open>counts[task]\<close> for one of the five tasks, which are always keys\<close>
  "count_of counts t = (case map_of counts t of None \<Rightarrow> 0 | Some c \<Rightarrow> c)"

definition compute_worker_capacities :: "employee_assignment list \<Rightarrow> worker_capacities" where
  "compute_worker_capacities assignments =
     (let counts = count_tasks assignments;
          n_atencion = count_of counts ''atender_clientes'';
          n_txistorra = count_of counts ''freir_txistorra'';
          n_sidra = count_of counts ''abrir_sidra''
      in \<lparr>customers_per_turn = 1 * real_of_int n_atencion * real_of_int TURN_MINUTES,
          txistorra_strips_per_turn = (4 / 60) * real_of_int TURN_MINUTES * real_of_int n_txistorra,
          sidra_bottles_per_turn = 2 * real_of_int n_sidra * real_of_int TURN_MINUTES\<rparr>)"

definition set_worker_assignments :: "employee_assignment list \<Rightarrow> 'g simulator \<Rightarrow> 'g simulator" where
  "set_worker_assignments assignments s =
     (let normalized = normalize_assignments assignments
      in s\<lparr>state := (state s)\<lparr>worker_assignments := normalized,
                              worker_capacities := compute_worker_capacities normalized\<rparr>\<rparr>)"

definition update_worker_trips :: "'g simulator \<Rightarrow> 'g simulator" where
  "update_worker_trips s =
     s\<lparr>state := (state s)\<lparr>workers_on_trip :=
         (\<lambda>emp_id. case workers_on_trip (state s) emp_id of
                      None \<Rightarrow> None
                    | Some turns_left \<Rightarrow> if turns_left - 1 > 0 then Some (turns_left - 1) else None)\<rparr>\<rparr>"

definition init_state :: "config \<Rightarrow> state" where
  "init_state cfg =
     (let initial_assignments =
            (case initial_worker_assignments (initial cfg) of None \<Rightarrow> [] | Some a \<Rightarrow> a);
          capacities = compute_worker_capacities initial_assignments
      in \<lparr>turn = 0, cash = initial_cash (initial cfg),
          stock_on_hand = map_of (initial_stock (initial cfg)),
          inbound_deliveries = [],
          prices = map_of (initial_prices (initial cfg)),
          last_turn = None, order_queue = [],
          worker_assignments = initial_assignments,
          worker_capacities = capacities,
          workers_on_trip = Map.empty\<rparr>)"

definition Simulator :: "'g rng_ops \<Rightarrow> config \<Rightarrow> 'g option \<Rightarrow> 'g simulator" where
  \<comment> \<open>\<open>Simulator.__init__\<close>: \<open>self.rng = rng or np.random.default_rng(config.seed)\<close>\<close>
  "Simulator R cfg r =
     \<lparr>config = cfg,
      rng = (case r of None \<Rightarrow> default_rng R (seed cfg) | Some g \<Rightarrow> g),
      state = init_state cfg,
      previous_response_id = None, agent_actions_trace = [], pending_tool_outputs = [],
      metrics_tool_calls = 0, metrics_tokens_in = 0, metrics_tokens_out = 0,
      metrics_cost_eur = 0, end_turn_requested = False\<rparr>"

definition reset :: "'g simulator \<Rightarrow> 'g simulator" where
  "reset s =
     s\<lparr>state := (init_state (config s))\<lparr>workers_on_trip := Map.empty\<rparr>,
       previous_response_id := None, agent_actions_trace := [], pending_tool_outputs := [],
       metrics_tool_calls := 0, metrics_tokens_in := 0, metrics_tokens_out := 0,
       metrics_cost_eur := 0, end_turn_requested := False\<rparr>"

subsection \<open>The six operations of \<open>ToolExecutor\<close>\<close>

text \<open>
  Each operation takes the simulator and returns the result together with the simulator
  after the call, or \<open>Inl\<close> of the exception that the call lets escape.
\<close>

definition get_status ::
  "string \<Rightarrow> (string \<times> string) list option \<Rightarrow> 'g simulator \<Rightarrow> py_error + (tool_result \<times> 'g simulator)" where
  "get_status cid args s0 =
     (let s = count_call s0;
          st = state s;
          inbound_view = map (\<lambda>d. \<lparr>arrival_time = format_time (delivery_arrival_turn d),
                                    view_quantities = quantities d\<rparr>) (inbound_deliveries st);
          result = (ToolResult True)\<lparr>r_cash := Some (cash st),
                     r_stock_on_hand := Some (stock_on_hand st),
                     r_inbound_deliveries := Some inbound_view,
                     r_worker_assignments := Some (worker_assignments st),
                     r_workers_on_trip := Some (workers_on_trip st)\<rparr>
      in Inr (result, record_tool_call ''get_status'' cid (arguments_or args Get_status) result s))"

definition get_prices ::
  "string \<Rightarrow> (string \<times> string) list option \<Rightarrow> 'g simulator \<Rightarrow> py_error + (tool_result \<times> 'g simulator)" where
  "get_prices cid args s0 =
     (let s = count_call s0;
          result = (ToolResult True)\<lparr>current_prices := Some (prices (state s))\<rparr>
      in Inr (result, record_tool_call ''get_prices'' cid (arguments_or args Get_prices) result s))"

fun dict_update :: "('k \<rightharpoonup> 'v) \<Rightarrow> ('k \<times> 'v) list \<Rightarrow> ('k \<rightharpoonup> 'v)" where
  \<comment> \<open>\<open>d.update(other)\<close>\<close>
  "dict_update d [] = d"
| "dict_update d ((k, v) # other) = dict_update (d(k \<mapsto> v)) other"

definition set_prices ::
  "(product_name \<times> real) list \<Rightarrow> string \<Rightarrow> (string \<times> string) list option \<Rightarrow> 'g simulator
     \<Rightarrow> py_error + (tool_result \<times> 'g simulator)" where
  "set_prices new_prices cid args s0 =
     (let s = count_call s0;
          recorded = arguments_or args (Set_prices new_prices)
      in case find (\<lambda>(k, v). v < 0) new_prices of
           Some (k, v) \<Rightarrow>
             (let result = (ToolResult False)\<lparr>reason := Some (Precio_negativo k)\<rparr>
              in Inr (result, record_tool_call ''set_prices'' cid recorded result s))
         | None \<Rightarrow>
             (let s' = s\<lparr>state := (state s)\<lparr>prices := dict_update (prices (state s)) new_prices\<rparr>\<rparr>;
                  result = ToolResult True
              in Inr (result, record_tool_call ''set_prices'' cid recorded result s')))"

text \<open>
  The three loops of \<open>place_order\<close>. The first stops at a negative quantity with a
  rejection and at an ingredient that has no entry in \<open>config.costs\<close> with the KeyError of
  \<open>self.engine.config.costs[ing]\<close>. The worker identifiers are typed as integers, so the
  \<open>isinstance\<close> test is true.
\<close>

fun order_cost_loop ::
  "(ingredient_name \<times> real) list \<Rightarrow> (ingredient_name \<times> int) list \<Rightarrow> real
     \<Rightarrow> py_error + (reason_text + real)" where
  "order_cost_loop cs [] cost = Inr (Inr cost)"
| "order_cost_loop cs ((ing, qty) # rest) cost =
     (if qty < 0 then Inr (Inl (Cantidad_negativa ing))
      else case map_of cs ing of
             None \<Rightarrow> Inl KeyError
           | Some c \<Rightarrow> order_cost_loop cs rest (cost + c * real_of_int qty))"

fun order_workers_loop ::
  "int \<Rightarrow> (int \<rightharpoonup> int) \<Rightarrow> int list \<Rightarrow> int list \<Rightarrow> reason_text + int list" where
  "order_workers_loop n trips [] seen_workers = Inr seen_workers"
| "order_workers_loop n trips (w # rest) seen_workers =
     (if w < 1 \<or> w > n then Inl (ID_trabajador_invalido w)
      else if w \<in> set seen_workers then Inl (ID_trabajador_duplicado w)
      else if trips w \<noteq> None then Inl (Trabajador_ya_de_viaje w)
      else order_workers_loop n trips rest (seen_workers @ [w]))"

fun order_weight_loop ::
  "(ingredient_name \<times> real) list \<Rightarrow> (ingredient_name \<times> int) list \<Rightarrow> real \<Rightarrow> real" where
  "order_weight_loop ws [] total_weight = total_weight"
| "order_weight_loop ws ((ing, qty) # rest) total_weight =
     order_weight_loop ws rest
       (total_weight + (case map_of ws ing of None \<Rightarrow> 0 | Some w \<Rightarrow> w) * real_of_int qty)"

definition place_order ::
  "(ingredient_name \<times> int) list \<Rightarrow> int list \<Rightarrow> string \<Rightarrow> (string \<times> string) list option
     \<Rightarrow> 'g simulator \<Rightarrow> py_error + (tool_result \<times> 'g simulator)" where
  "place_order qs workers cid args s0 =
     (let s = count_call s0;
          cfg = config s;
          recorded = arguments_or args (Place_order qs workers);
          reject = (\<lambda>result. Inr (result, record_tool_call ''place_order'' cid recorded result s))
      in case order_cost_loop (costs cfg) qs 0 of
           Inl e \<Rightarrow> Inl e
         | Inr (Inl r) \<Rightarrow> reject ((ToolResult False)\<lparr>reason := Some r\<rparr>)
         | Inr (Inr cost) \<Rightarrow>
             if workers = [] then reject ((ToolResult False)\<lparr>reason := Some Debe_enviar_trabajador\<rparr>)
             else (case order_workers_loop (num_workers cfg) (workers_on_trip (state s)) workers [] of
               Inl r \<Rightarrow> reject ((ToolResult False)\<lparr>reason := Some r\<rparr>)
             | Inr seen_workers \<Rightarrow>
                 (let total_weight = order_weight_loop (ingredient_weights cfg) qs 0;
                      max_weight = real (length workers) * worker_max_carry_weight cfg
                  in if total_weight > max_weight + 1 / 10 ^ 9 then
                       reject ((ToolResult False)\<lparr>reason := Some Compra_excede_capacidad_de_carga,
                                                   accepted := Some False\<rparr>)
                     else if cost > cash (state s) then
                       reject ((ToolResult False)\<lparr>reason := Some Compra_rechazada_coste_mayor_que_caja,
                                                   accepted := Some False\<rparr>)
                     else
                       (let arrival = turn (state s) + lead_time cfg;
                            s1 = s\<lparr>state := (state s)\<lparr>cash := cash (state s) - cost,
                                   inbound_deliveries := inbound_deliveries (state s) @
                                     [\<lparr>delivery_arrival_turn = arrival, quantities = qs\<rparr>]\<rparr>\<rparr>;
                            remaining_assignments =
                              filter (\<lambda>a. employee_id a \<notin> set seen_workers) (worker_assignments (state s1));
                            s2 = set_worker_assignments remaining_assignments s1;
                            s3 = s2\<lparr>state := (state s2)\<lparr>workers_on_trip :=
                                   (\<lambda>w. if w \<in> set seen_workers then Some (lead_time cfg)
                                         else workers_on_trip (state s2) w)\<rparr>\<rparr>;
                            result = (ToolResult True)\<lparr>accepted := Some True,
                                       r_worker_assignments := Some (worker_assignments (state s3)),
                                       r_workers_on_trip := Some (workers_on_trip (state s3))\<rparr>
                        in Inr (result, record_tool_call ''place_order'' cid recorded result s3)))))"

text \<open>
  \<open>assign_workers\<close>: the validation loop over the assignments, then the loop over the four
  capped tasks. The employee identifiers are typed as integers.
\<close>

definition valid_tasks :: "task_name list" where
  "valid_tasks = map fst zero_counts"

fun assign_loop ::
  "int \<Rightarrow> (int \<rightharpoonup> int) \<Rightarrow> employee_assignment list \<Rightarrow> int list \<Rightarrow> (task_name \<times> int) list
     \<Rightarrow> reason_text + (task_name \<times> int) list" where
  "assign_loop n trips [] seen_ids counts = Inr counts"
| "assign_loop n trips (a # rest) seen_ids counts =
     (let emp_id = employee_id a; t = task a
      in if emp_id < 1 \<or> emp_id > n then Inl (Employee_id_invalido emp_id)
         else if trips emp_id \<noteq> None then Inl (Trabajador_de_viaje_no_asignable emp_id)
         else if emp_id \<in> set seen_ids then Inl (Employee_id_duplicado emp_id)
         else if t \<notin> set valid_tasks then Inl (Tarea_invalida t)
         else assign_loop n trips rest (seen_ids @ [emp_id])
                (AList.update t (count_of counts t + 1) counts))"

fun caps_loop :: "(task_name \<times> int) list \<Rightarrow> (task_name \<times> int) list \<Rightarrow> reason_text option" where
  "caps_loop counts [] = None"
| "caps_loop counts ((task_name, limit) # rest) =
     (if count_of counts task_name > limit then Some (Maximo_para limit task_name)
      else caps_loop counts rest)"

definition task_caps :: "(task_name \<times> int) list" where
  "task_caps =
     [(''atender_clientes'', 3), (''freir_txistorra'', 3), (''preparar_pintxos'', 3),
      (''abrir_sidra'', 3)]"

definition assign_workers ::
  "employee_assignment list \<Rightarrow> string \<Rightarrow> (string \<times> string) list option \<Rightarrow> 'g simulator
     \<Rightarrow> py_error + (tool_result \<times> 'g simulator)" where
  "assign_workers assignments cid args s0 =
     (let s = count_call s0;
          recorded = arguments_or args (Assign_workers assignments);
          reject = (\<lambda>r. let result = (ToolResult False)\<lparr>reason := Some r\<rparr>
                         in Inr (result, record_tool_call ''assign_workers'' cid recorded result s))
      in case assign_loop (num_workers (config s)) (workers_on_trip (state s)) assignments []
                zero_counts of
           Inl r \<Rightarrow> reject r
         | Inr counts \<Rightarrow>
             (case caps_loop counts task_caps of
                Some r \<Rightarrow> reject r
              | None \<Rightarrow>
                  (let s1 = set_worker_assignments assignments s;
                       result = (ToolResult True)\<lparr>r_worker_assignments :=
                                   Some (worker_assignments (state s1))\<rparr>
                   in Inr (result, record_tool_call ''assign_workers'' cid recorded result s1))))"

definition end_turn ::
  "string \<Rightarrow> (string \<times> string) list option \<Rightarrow> 'g simulator \<Rightarrow> py_error + (tool_result \<times> 'g simulator)" where
  "end_turn cid args s0 =
     (let s = (count_call s0)\<lparr>end_turn_requested := True\<rparr>;
          result = ToolResult True
      in Inr (result, record_tool_call ''end_turn'' cid (arguments_or args End_turn) result s))"

definition invoke :: "invocation \<Rightarrow> 'g simulator \<Rightarrow> py_error + (tool_result \<times> 'g simulator)" where
  "invoke i s =
     (case call i of
        Get_status \<Rightarrow> get_status (call_id i) (arguments i) s
      | Get_prices \<Rightarrow> get_prices (call_id i) (arguments i) s
      | Set_prices p \<Rightarrow> set_prices p (call_id i) (arguments i) s
      | Place_order q w \<Rightarrow> place_order q w (call_id i) (arguments i) s
      | Assign_workers a \<Rightarrow> assign_workers a (call_id i) (arguments i) s
      | End_turn \<Rightarrow> end_turn (call_id i) (arguments i) s)"

subsection \<open>Deliveries and revenue\<close>

definition stock_get :: "(ingredient_name \<rightharpoonup> real) \<Rightarrow> ingredient_name \<Rightarrow> real" where
  \<comment> \<open>\<open>stock_on_hand.get(ing, 0.0)\<close>\<close>
  "stock_get stock ing = (case stock ing of None \<Rightarrow> 0 | Some v \<Rightarrow> v)"

fun receive_quantities ::
  "(ingredient_name \<rightharpoonup> real) \<Rightarrow> (ingredient_name \<times> int) list \<Rightarrow> (ingredient_name \<rightharpoonup> real)" where
  "receive_quantities stock [] = stock"
| "receive_quantities stock ((ing, qty) # rest) =
     receive_quantities (stock(ing \<mapsto> stock_get stock ing + real_of_int qty)) rest"

fun receive_loop ::
  "int \<Rightarrow> delivery list \<Rightarrow> (ingredient_name \<rightharpoonup> real) \<Rightarrow> delivery list
     \<Rightarrow> (ingredient_name \<rightharpoonup> real) \<times> delivery list" where
  "receive_loop current_turn [] stock remaining = (stock, remaining)"
| "receive_loop current_turn (d # ds) stock remaining =
     (if delivery_arrival_turn d = current_turn
      then receive_loop current_turn ds (receive_quantities stock (quantities d)) remaining
      else receive_loop current_turn ds stock (remaining @ [d]))"

definition receive_deliveries :: "'g simulator \<Rightarrow> 'g simulator" where
  "receive_deliveries s =
     (let (stock, remaining) =
            receive_loop (turn (state s)) (inbound_deliveries (state s)) (stock_on_hand (state s)) []
      in s\<lparr>state := (state s)\<lparr>stock_on_hand := stock, inbound_deliveries := remaining\<rparr>\<rparr>)"

fun revenue_loop ::
  "(product_name \<rightharpoonup> real) \<Rightarrow> (product_name \<times> int) list \<Rightarrow> real \<Rightarrow> py_error + real" where
  "revenue_loop prs [] revenue = Inr revenue"
| "revenue_loop prs ((product, units) # rest) revenue =
     (case prs product of
        None \<Rightarrow> Inl KeyError
      | Some p \<Rightarrow> revenue_loop prs rest (revenue + p * real_of_int units))"

definition compute_revenue :: "'g simulator \<Rightarrow> (product_name \<times> int) list \<Rightarrow> py_error + real" where
  "compute_revenue s sold = revenue_loop (prices (state s)) sold 0"

subsection \<open>Order fulfilment\<close>

definition recipe_of ::
  "(product_name \<times> (ingredient_name \<times> real) list) list \<Rightarrow> product_name \<Rightarrow> (ingredient_name \<times> real) list" where
  \<comment> \<open>\<open>recipes.get(product, {})\<close>\<close>
  "recipe_of rc product = (case map_of rc product of None \<Rightarrow> [] | Some r \<Rightarrow> r)"

definition per_unit_of :: "(ingredient_name \<times> real) list \<Rightarrow> ingredient_name \<Rightarrow> real" where
  \<comment> \<open>\<open>recipe.get(ing, 0.0)\<close>\<close>
  "per_unit_of recipe ing = (case map_of recipe ing of None \<Rightarrow> 0 | Some v \<Rightarrow> v)"

fun capacity_needs ::
  "(product_name \<times> (ingredient_name \<times> real) list) list \<Rightarrow> (product_name \<times> int) list
     \<Rightarrow> real \<times> real \<Rightarrow> real \<times> real" where
  "capacity_needs rc [] needs = needs"
| "capacity_needs rc ((product, qty) # rest) (txistorra_needed, sidra_needed) =
     (let recipe = recipe_of rc product
      in capacity_needs rc rest
           (txistorra_needed + per_unit_of recipe ''txistorra'' * real_of_int qty,
            sidra_needed + per_unit_of recipe ''sidra'' * real_of_int qty))"

fun recipe_needs ::
  "(ingredient_name \<times> real) list \<Rightarrow> int \<Rightarrow> (ingredient_name \<times> real) list
     \<Rightarrow> (ingredient_name \<times> real) list" where
  "recipe_needs [] qty needed = needed"
| "recipe_needs ((ing, per_unit) # rest) qty needed =
     (if per_unit \<le> 0 then recipe_needs rest qty needed
      else recipe_needs rest qty
             (AList.update ing
                ((case map_of needed ing of None \<Rightarrow> 0 | Some v \<Rightarrow> v) + per_unit * real_of_int qty)
                needed))"

fun needed_ingredients ::
  "(product_name \<times> (ingredient_name \<times> real) list) list \<Rightarrow> (product_name \<times> int) list
     \<Rightarrow> (ingredient_name \<times> real) list \<Rightarrow> (ingredient_name \<times> real) list" where
  "needed_ingredients rc [] needed = needed"
| "needed_ingredients rc ((product, qty) # rest) needed =
     needed_ingredients rc rest (recipe_needs (recipe_of rc product) qty needed)"

definition can_fulfill :: "(ingredient_name \<rightharpoonup> real) \<Rightarrow> (ingredient_name \<times> real) list \<Rightarrow> bool" where
  "can_fulfill stock needed =
     (\<not> list_ex (\<lambda>(ing, total_need). total_need > stock_get stock ing + 1 / 10 ^ 9) needed)"

fun consume_stock ::
  "(ingredient_name \<rightharpoonup> real) \<Rightarrow> (ingredient_name \<times> real) list \<Rightarrow> (ingredient_name \<rightharpoonup> real)" where
  "consume_stock stock [] = stock"
| "consume_stock stock ((ing, total_need) # rest) =
     consume_stock (stock(ing \<mapsto> stock_get stock ing - total_need)) rest"

text \<open>The local variables of the scan of \<open>_simulate_demand_and_sales\<close>, with the stock
  that the scan updates in place.\<close>

record scan_state =
  remaining_customers :: real
  remaining_txistorra :: real
  remaining_sidra :: real
  scan_stock :: "ingredient_name \<rightharpoonup> real"
  sold_products :: "(product_name \<times> int) list"
  unserved_orders :: "(product_name \<times> int) list list"
  served_customers :: nat
  blocked_by_customers_capacity :: nat
  blocked_by_grill_capacity :: nat
  blocked_by_sidra_capacity :: nat
  blocked_by_stock :: bool
  next_queue :: "order list"
  orders_served :: "(product_name \<times> int) list list"

definition scan_body ::
  "(product_name \<times> (ingredient_name \<times> real) list) list \<Rightarrow> order \<Rightarrow> scan_state \<Rightarrow> scan_state" where
  \<comment> \<open>the body of the loop over \<open>all_orders\<close> below the customer-slot test: what one
     order does to the local variables when a customer slot is left\<close>
  "scan_body rc order st =
     (let (txistorra_needed, sidra_needed) = capacity_needs rc (items order) (0, 0)
      in if txistorra_needed > remaining_txistorra st + 1 / 10 ^ 9 then
           st\<lparr>blocked_by_grill_capacity := blocked_by_grill_capacity st + 1,
              next_queue := next_queue st @ [order],
              unserved_orders := unserved_orders st @ [items order]\<rparr>
         else if sidra_needed > remaining_sidra st + 1 / 10 ^ 9 then
           st\<lparr>blocked_by_sidra_capacity := blocked_by_sidra_capacity st + 1,
              next_queue := next_queue st @ [order],
              unserved_orders := unserved_orders st @ [items order]\<rparr>
         else
           (let needed = needed_ingredients rc (items order) []
            in if \<not> can_fulfill (scan_stock st) needed then
                 st\<lparr>blocked_by_stock := True, next_queue := next_queue st @ [order]\<rparr>
               else
                 st\<lparr>scan_stock := consume_stock (scan_stock st) needed,
                    remaining_txistorra := remaining_txistorra st - txistorra_needed,
                    remaining_sidra := remaining_sidra st - sidra_needed,
                    remaining_customers := remaining_customers st - 1,
                    served_customers := served_customers st + 1,
                    orders_served := orders_served st @ [items order],
                    sold_products := add_items (sold_products st) (items order)\<rparr>))"

fun scan ::
  "(product_name \<times> (ingredient_name \<times> real) list) list \<Rightarrow> order list \<Rightarrow> scan_state \<Rightarrow> scan_state" where
  \<comment> \<open>\<open>for idx, order in enumerate(all_orders)\<close>, with its \<open>break\<close> when no customer slot is left\<close>
  "scan rc [] st = st"
| "scan rc (order # rest) st =
     (if remaining_customers st \<le> 0 then
        st\<lparr>blocked_by_customers_capacity := blocked_by_customers_capacity st + length (order # rest),
           unserved_orders := unserved_orders st @ map items (order # rest),
           next_queue := next_queue st @ (order # rest)\<rparr>
      else scan rc rest (scan_body rc order st))"

fun queue_filter_loop :: "int \<Rightarrow> order list \<Rightarrow> order list \<Rightarrow> nat \<Rightarrow> order list \<times> nat" where
  "queue_filter_loop turn_idx [] filtered_queue dropped = (filtered_queue, dropped)"
| "queue_filter_loop turn_idx (order # rest) filtered_queue dropped =
     (let waited_turns = turn_idx - arrival_turn order
      in if waited_turns \<ge> MAX_QUEUE_WAIT_TURNS
         then queue_filter_loop turn_idx rest filtered_queue (dropped + 1)
         else queue_filter_loop turn_idx rest (filtered_queue @ [order]) dropped)"

record stats =
  st_new_customers :: int
  st_served_customers :: nat
  st_queue_start :: nat
  st_queue_end :: nat
  st_blocked_by_customers_capacity :: nat
  st_blocked_by_grill_capacity :: nat
  st_blocked_by_sidra_capacity :: nat
  st_blocked_by_stock :: bool
  st_dropped_from_queue :: nat

record sales_outcome =
  out_demand_products :: "(product_name \<times> int) list"
  out_sold_products :: "(product_name \<times> int) list"
  out_orders_served :: "(product_name \<times> int) list list"
  out_unserved_orders :: "(product_name \<times> int) list list"
  out_stats :: stats

definition initial_scan :: "state \<Rightarrow> scan_state" where
  "initial_scan st =
     \<lparr>remaining_customers = customers_per_turn (worker_capacities st),
      remaining_txistorra = txistorra_strips_per_turn (worker_capacities st),
      remaining_sidra = sidra_bottles_per_turn (worker_capacities st),
      scan_stock = stock_on_hand st,
      sold_products = [(''pintxo'', 0), (''bocadillo'', 0), (''sidra'', 0)],
      unserved_orders = [], served_customers = 0,
      blocked_by_customers_capacity = 0, blocked_by_grill_capacity = 0,
      blocked_by_sidra_capacity = 0, blocked_by_stock = False,
      next_queue = [], orders_served = []\<rparr>"

definition fulfil :: "config \<Rightarrow> state \<Rightarrow> new_batch \<Rightarrow> sales_outcome \<times> state" where
  \<comment> \<open>steps 2 and 3 of \<open>_simulate_demand_and_sales\<close>, after the new orders have been sampled\<close>
  "fulfil cfg st batch =
     (let turn_idx = turn st;
          (filtered_queue, dropped_from_queue) = queue_filter_loop turn_idx (order_queue st) [] 0;
          st1 = st\<lparr>order_queue := filtered_queue\<rparr>;
          queue_start_len = length (order_queue st1);
          all_orders = order_queue st1 @ orders batch;
          fin = scan (recipes cfg) all_orders (initial_scan st1);
          st2 = st1\<lparr>stock_on_hand := scan_stock fin, order_queue := next_queue fin\<rparr>;
          queue_end_len = length (order_queue st2)
      in (\<lparr>out_demand_products = demand_products batch,
           out_sold_products = sold_products fin,
           out_orders_served = orders_served fin,
           out_unserved_orders = unserved_orders fin,
           out_stats = \<lparr>st_new_customers = new_customers batch,
                        st_served_customers = served_customers fin,
                        st_queue_start = queue_start_len,
                        st_queue_end = queue_end_len,
                        st_blocked_by_customers_capacity = blocked_by_customers_capacity fin,
                        st_blocked_by_grill_capacity = blocked_by_grill_capacity fin,
                        st_blocked_by_sidra_capacity = blocked_by_sidra_capacity fin,
                        st_blocked_by_stock = blocked_by_stock fin,
                        st_dropped_from_queue = dropped_from_queue\<rparr>\<rparr>, st2))"

definition simulate_demand_and_sales ::
  "'g rng_ops \<Rightarrow> 'g simulator \<Rightarrow> py_error + (sales_outcome \<times> 'g simulator)" where
  "simulate_demand_and_sales R s =
     (case sample_orders_for_agent R (prices (state s)) (demand (config s)) (turn (state s)) (rng s) of
        Inl e \<Rightarrow> Inl e
      | Inr (batch, g') \<Rightarrow>
          (let (out, st') = fulfil (config s) (state s) batch
           in Inr (out, s\<lparr>rng := g', state := st'\<rparr>)))"

subsection \<open>The episode loop\<close>

text \<open>
  The decision-maker is external. What one call of \<open>play_turn\<close> does to the engine is
  recorded here as the operations it invokes, in order, the list of actions it returns
  (each by its \<open>type\<close>, the only field the engine reads) and the token and cost figures
  that \<open>LLMAgent.play_turn\<close> adds to the engine's counters. An exception raised by an
  operation is not caught by the agents of the repository and leaves \<open>play_turn\<close>.
\<close>

record agent_turn =
  invocations :: "invocation list"
  actions :: "string list"
  used_tokens_in :: int
  used_tokens_out :: int
  used_cost_eur :: real

fun run_invocations :: "invocation list \<Rightarrow> 'g simulator \<Rightarrow> py_error + 'g simulator" where
  "run_invocations [] s = Inr s"
| "run_invocations (i # rest) s =
     (case invoke i s of
        Inl e \<Rightarrow> Inl e
      | Inr (result, s') \<Rightarrow> run_invocations rest s')"

definition play_turn :: "agent_turn \<Rightarrow> 'g simulator \<Rightarrow> py_error + (string list \<times> 'g simulator)" where
  "play_turn a s =
     (case run_invocations (invocations a) s of
        Inl e \<Rightarrow> Inl e
      | Inr s' \<Rightarrow>
          Inr (actions a,
               s'\<lparr>metrics_tokens_in := metrics_tokens_in s' + used_tokens_in a,
                  metrics_tokens_out := metrics_tokens_out s' + used_tokens_out a,
                  metrics_cost_eur := metrics_cost_eur s' + used_cost_eur a\<rparr>))"

record snapshot =
  snap_cash :: real
  snap_stock :: "ingredient_name \<rightharpoonup> real"
  snap_inbound :: "delivery list"
  snap_prices :: "product_name \<rightharpoonup> real"
  snap_queue :: nat
  snap_worker_assignments :: "employee_assignment list"
  snap_worker_capacities :: worker_capacities
  snap_workers_on_trip :: "int \<rightharpoonup> int"

definition take_snapshot :: "state \<Rightarrow> nat \<Rightarrow> snapshot" where
  "take_snapshot st q =
     \<lparr>snap_cash = cash st, snap_stock = stock_on_hand st, snap_inbound = inbound_deliveries st,
      snap_prices = prices st, snap_queue = q,
      snap_worker_assignments = worker_assignments st,
      snap_worker_capacities = worker_capacities st,
      snap_workers_on_trip = workers_on_trip st\<rparr>"

record trace_record =
  tr_turn :: int
  tr_time :: string
  tr_state_before :: snapshot
  tr_agent_actions :: "trace_entry list"
  tr_tool_calls_count :: int
  tr_orders_served :: "(product_name \<times> int) list list"
  tr_revenue :: real
  tr_by_product :: "(product_name \<times> real) list"
  tr_state_after :: snapshot
  tr_tokens_in :: int
  tr_tokens_out :: int
  tr_cost_eur :: real

definition round6 :: "real \<Rightarrow> real" where
  \<comment> \<open>\<open>round(x, 6)\<close>\<close>
  "round6 x = real_of_int (py_round (x * 10 ^ 6)) / 10 ^ 6"

fun by_product_loop ::
  "(product_name \<rightharpoonup> real) \<Rightarrow> (product_name \<times> int) list \<Rightarrow> (product_name \<times> real) list
     \<Rightarrow> py_error + (product_name \<times> real) list" where
  "by_product_loop prs [] acc = Inr acc"
| "by_product_loop prs ((k, units) # rest) acc =
     (case prs k of
        None \<Rightarrow> Inl KeyError
      | Some p \<Rightarrow> by_product_loop prs rest (acc @ [(k, p * real_of_int units)]))"

definition ends_with_end_turn :: "string list \<Rightarrow> bool" where
  \<comment> \<open>the negation of \<open>not actions or actions[-1]["type"] != "end_turn"\<close>\<close>
  "ends_with_end_turn acts = (acts \<noteq> [] \<and> last acts = ''end_turn'')"

definition begin_turn :: "int \<Rightarrow> 'g simulator \<Rightarrow> 'g simulator" where
  \<comment> \<open>the head of the loop body of \<open>run_episode\<close>, up to the deliveries\<close>
  "begin_turn t s =
     receive_deliveries
       (update_worker_trips
          (s\<lparr>state := (state s)\<lparr>turn := t\<rparr>, end_turn_requested := False,
             agent_actions_trace := []\<rparr>))"

definition credit :: "real \<Rightarrow> 'g simulator \<Rightarrow> 'g simulator" where
  \<comment> \<open>\<open>self.state.cash += revenue\<close>\<close>
  "credit revenue s = s\<lparr>state := (state s)\<lparr>cash := cash (state s) + revenue\<rparr>\<rparr>"

definition summarise :: "sales_outcome \<Rightarrow> state \<Rightarrow> turn_summary" where
  \<comment> \<open>the \<open>TurnSummary\<close> stored as \<open>last_turn\<close>\<close>
  "summarise out st =
     (let queue_stats = out_stats out;
          dropped = st_dropped_from_queue queue_stats;
          messages = (if dropped > 0 then [dropped] else [])
      in \<lparr>ts_queue_start = st_queue_start queue_stats,
          ts_new_customers = st_new_customers queue_stats,
          ts_served_customers = st_served_customers queue_stats,
          ts_queue_end = st_queue_end queue_stats,
          ts_dropped_from_queue = dropped,
          ts_orders_served = out_orders_served out,
          ts_unserved_orders = out_unserved_orders out,
          ts_blocked_by_customers_capacity = (st_blocked_by_customers_capacity queue_stats > 0),
          ts_blocked_by_grill_capacity = (st_blocked_by_grill_capacity queue_stats > 0),
          ts_blocked_by_sidra_capacity = (st_blocked_by_sidra_capacity queue_stats > 0),
          ts_blocked_by_stock = st_blocked_by_stock queue_stats,
          ts_messages = messages,
          ts_worker_assignments = worker_assignments st,
          ts_worker_capacities = worker_capacities st\<rparr>)"

definition remember :: "turn_summary \<Rightarrow> 'g simulator \<Rightarrow> 'g simulator" where
  \<comment> \<open>\<open>self.state.last_turn = TurnSummary(...)\<close>\<close>
  "remember summary s = s\<lparr>state := (state s)\<lparr>last_turn := Some summary\<rparr>\<rparr>"

definition settle ::
  "'g rng_ops \<Rightarrow> int \<Rightarrow> snapshot \<Rightarrow> int \<Rightarrow> int \<Rightarrow> int \<Rightarrow> real \<Rightarrow> 'g simulator
     \<Rightarrow> py_error + (trace_record \<times> 'g simulator)" where
  \<comment> \<open>the loop body of \<open>run_episode\<close> after the end-of-turn check\<close>
  "settle R t before tool_calls_this_turn tokens_in_turn tokens_out_turn cost_turn s3 =
     (case simulate_demand_and_sales R s3 of
        Inl e \<Rightarrow> Inl e
      | Inr (out, s4) \<Rightarrow>
     (case compute_revenue s4 (out_sold_products out) of
        Inl e \<Rightarrow> Inl e
      | Inr revenue \<Rightarrow>
          (let s5 = credit revenue s4;
               s6 = remember (summarise out (state s5)) s5
           in case by_product_loop (prices (state s6)) (out_sold_products out) [] of
                Inl e \<Rightarrow> Inl e
              | Inr by_product \<Rightarrow>
                  Inr (\<lparr>tr_turn = t, tr_time = format_time t,
                        tr_state_before = before\<lparr>snap_queue := st_queue_start (out_stats out)\<rparr>,
                        tr_agent_actions = agent_actions_trace s6,
                        tr_tool_calls_count = tool_calls_this_turn,
                        tr_orders_served = out_orders_served out,
                        tr_revenue = revenue,
                        tr_by_product = by_product,
                        tr_state_after = take_snapshot (state s6) (st_queue_end (out_stats out)),
                        tr_tokens_in = tokens_in_turn,
                        tr_tokens_out = tokens_out_turn,
                        tr_cost_eur = cost_turn\<rparr>, s6))))"

definition run_turn ::
  "'g rng_ops \<Rightarrow> int \<Rightarrow> agent_turn \<Rightarrow> 'g simulator \<Rightarrow> py_error + (trace_record \<times> 'g simulator)" where
  "run_turn R t a s =
     (let s2 = begin_turn t s;
          before = take_snapshot (state s2) 0
      in case play_turn a s2 of
           Inl e \<Rightarrow> Inl e
         | Inr (acts, s3) \<Rightarrow>
             if \<not> ends_with_end_turn acts then Inl ValueError
             else settle R t before
                    (metrics_tool_calls s3 - metrics_tool_calls s2)
                    (metrics_tokens_in s3 - metrics_tokens_in s2)
                    (metrics_tokens_out s3 - metrics_tokens_out s2)
                    (round6 (metrics_cost_eur s3 - metrics_cost_eur s2)) s3)"

text \<open>
  \<open>run_turns\<close> is the loop \<open>for t in range(num_turns)\<close>, run with a trace writer. It
  returns the records handed to the trace writer so far and either the exception that
  ended the episode or the simulator after the last turn.
\<close>

fun run_turns ::
  "'g rng_ops \<Rightarrow> (int \<Rightarrow> agent_turn) \<Rightarrow> int list \<Rightarrow> 'g simulator \<Rightarrow> trace_record list
     \<Rightarrow> trace_record list \<times> (py_error + 'g simulator)" where
  "run_turns R agent [] s written = (written, Inr s)"
| "run_turns R agent (t # ts) s written =
     (case run_turn R t (agent t) s of
        Inl e \<Rightarrow> (written, Inl e)
      | Inr (r, s') \<Rightarrow> run_turns R agent ts s' (written @ [r]))"

record episode_result =
  cash_final :: real
  tool_calls_total :: int
  tokens_in_total :: int
  tokens_out_total :: int
  cost_total_eur :: real

definition run_episode ::
  "'g rng_ops \<Rightarrow> (int \<Rightarrow> agent_turn) \<Rightarrow> 'g simulator
     \<Rightarrow> trace_record list \<times> (py_error + (episode_result \<times> 'g simulator))" where
  "run_episode R agent s0 =
     (let s = reset s0
      in case run_turns R agent (map int [0 ..< nat (num_turns (config s))]) s [] of
           (written, Inl e) \<Rightarrow> (written, Inl e)
         | (written, Inr s') \<Rightarrow>
             (written,
              Inr (\<lparr>cash_final = cash (state s'),
                    tool_calls_total = metrics_tool_calls s',
                    tokens_in_total = metrics_tokens_in s',
                    tokens_out_total = metrics_tokens_out s',
                    cost_total_eur = round6 (metrics_cost_eur s')\<rparr>, s')))"

section \<open>Example configuration\<close>

text \<open>
  A small configuration on which the operations are evaluated below, and a generator
  whose draws are constant: \<open>lognormal\<close> yields 1 and \<open>choice\<close> the first index.
\<close>

definition example_rng :: "unit rng_ops" where
  "example_rng = \<lparr>lognormal = (\<lambda>sigma g. (1, g)), choice = (\<lambda>n p g. (0, g)), default_rng = (\<lambda>sd. ())\<rparr>"

definition example_demand :: demand_params where
  "example_demand =
     \<lparr>price_ref = [(''pintxo'', 3), (''bocadillo'', 5), (''sidra'', 2)],
      elasticity = [(''pintxo'', 1), (''bocadillo'', 1), (''sidra'', 1)],
      noise_std = 0,
      customers_curve = [4],
      elasticity_customers = 0,
      order_profiles = [(''solo'', \<lparr>name = ''solo'', profile_items = [(''pintxo'', 1)]\<rparr>)],
      order_mix_segments = [\<lparr>from_turn = 0, to_turn = 0, profile_probs = [(''solo'', 1)]\<rparr>]\<rparr>"

definition example_config :: config where
  "example_config =
     \<lparr>num_turns = 1, lead_time = 2, seed = 42,
      initial = \<lparr>initial_cash = 100,
                 initial_stock = [(''txistorra'', 10), (''pan'', 10), (''sidra'', 10)],
                 initial_prices = [(''pintxo'', 3), (''bocadillo'', 5), (''sidra'', 2)],
                 initial_worker_assignments = Some [\<lparr>employee_id = 1, task = ''atender_clientes''\<rparr>]\<rparr>,
      costs = [(''txistorra'', 1), (''pan'', 1 / 2), (''sidra'', 1)],
      ingredient_weights = [(''txistorra'', 1 / 10), (''pan'', 1 / 5), (''sidra'', 1)],
      worker_max_carry_weight = 10,
      recipes = [(''pintxo'', [(''txistorra'', 1 / 4), (''pan'', 1 / 10)]),
                 (''bocadillo'', [(''txistorra'', 1), (''pan'', 1 / 2)]),
                 (''sidra'', [(''sidra'', 1)])],
      demand = example_demand,
      num_workers = 8\<rparr>"

definition example_sim :: "unit simulator" where
  "example_sim = Simulator example_rng example_config None"

text \<open>
  The same configuration with one ingredient weight, one recipe and the stock of one
  ingredient written to ten decimal places: a unit of bread weighs 10.0000000005, and a
  pintxo takes 0.3333333334 of the 0.3333333333 txistorra in stock. Workers 1 and 2
  serve customers and fry.
\<close>

definition tolerance_config :: config where
  "tolerance_config =
     example_config
       \<lparr>initial := (initial example_config)
          \<lparr>initial_stock := [(''txistorra'', 3333333333 / 10 ^ 10), (''pan'', 10), (''sidra'', 10)],
           initial_worker_assignments :=
             Some [\<lparr>employee_id = 1, task = ''atender_clientes''\<rparr>,
                   \<lparr>employee_id = 2, task = ''freir_txistorra''\<rparr>]\<rparr>,
        ingredient_weights := [(''txistorra'', 1 / 10), (''pan'', 10 + 5 / 10 ^ 10), (''sidra'', 1)],
        recipes := [(''pintxo'', [(''txistorra'', 3333333334 / 10 ^ 10)]),
                    (''bocadillo'', [(''txistorra'', 1), (''pan'', 1 / 2)]),
                    (''sidra'', [(''sidra'', 1)])]\<rparr>"

definition tolerance_sim :: "unit simulator" where
  "tolerance_sim = Simulator example_rng tolerance_config None"

text \<open>
  A scan state with one grill worker's capacity (one strip), fifteen customer slots and
  ample stock, and two orders: a bocadillo, and a pintxo of a recipe book in which a
  bocadillo takes 1.0000000005 strips.
\<close>

definition grill_recipes :: "(product_name \<times> (ingredient_name \<times> real) list) list" where
  "grill_recipes =
     [(''pintxo'', [(''txistorra'', 1 / 4)]), (''bocadillo'', [(''txistorra'', 1 + 5 / 10 ^ 10)])]"

definition grill_scan_state :: scan_state where
  "grill_scan_state =
     \<lparr>remaining_customers = 15, remaining_txistorra = 1, remaining_sidra = 0,
      scan_stock = [''txistorra'' \<mapsto> 10],
      sold_products = [(''pintxo'', 0), (''bocadillo'', 0), (''sidra'', 0)],
      unserved_orders = [], served_customers = 0,
      blocked_by_customers_capacity = 0, blocked_by_grill_capacity = 0,
      blocked_by_sidra_capacity = 0, blocked_by_stock = False,
      next_queue = [], orders_served = []\<rparr>"

definition bocadillo_order :: order where
  "bocadillo_order = \<lparr>items = [(''bocadillo'', 1)], arrival_turn = 0\<rparr>"

definition pintxo_order :: order where
  "pintxo_order = \<lparr>items = [(''pintxo'', 1)], arrival_turn = 0\<rparr>"

definition example_agent :: "int \<Rightarrow> agent_turn" where
  "example_agent t =
     \<lparr>invocations = [\<lparr>call = End_turn, call_id = [], arguments = None\<rparr>],
      actions = [''end_turn''], used_tokens_in = 0, used_tokens_out = 0, used_cost_eur = 0\<rparr>"

text \<open>
  The example state at turn 2 with two queued orders, one that arrived at turn 0 and one
  that arrived at turn 1, and a batch of one new order.
\<close>

definition aged_state :: state where
  "aged_state =
     (init_state example_config)
       \<lparr>turn := 2,
        order_queue := [\<lparr>items = [(''pintxo'', 1)], arrival_turn = 0\<rparr>,
                        \<lparr>items = [(''bocadillo'', 1)], arrival_turn = 1\<rparr>]\<rparr>"

definition fresh_batch :: new_batch where
  "fresh_batch =
     \<lparr>orders = [\<lparr>items = [(''pintxo'', 1)], arrival_turn = 2\<rparr>], new_customers = 1,
      demand_products = [(''pintxo'', 1), (''bocadillo'', 0), (''sidra'', 0)]\<rparr>"

section \<open>The expected ticket as the specification words it\<close>

text \<open>
  The specification's expected ticket value, to compare with \<open>compute_expected_ticket\<close>:
  for each order profile of the active segment the sum of unit price times quantity over
  its items, weighted by the segment's profile probabilities normalised to sum to 1, or
  by a uniform mix when their total weight is zero. \<open>profile_ticket\<close> is the value of one
  profile at the given prices (a product without a price counts as 0).
\<close>

definition profile_ticket :: "(product_name \<rightharpoonup> real) \<Rightarrow> (product_name \<times> int) list \<Rightarrow> real" where
  "profile_ticket prs its =
     (\<Sum>(product, qty) \<leftarrow> its. real_of_int qty * (case prs product of None \<Rightarrow> 0 | Some p \<Rightarrow> p))"

definition profile_named :: "demand_params \<Rightarrow> string \<Rightarrow> (product_name \<times> int) list" where
  "profile_named params n =
     (case map_of (order_profiles params) n of None \<Rightarrow> [] | Some profile \<Rightarrow> profile_items profile)"

definition spec_expected_ticket :: "(product_name \<rightharpoonup> real) \<Rightarrow> demand_params \<Rightarrow> int \<Rightarrow> real" where
  "spec_expected_ticket prs params turn_idx =
     (let probs = find_order_mix_segment params turn_idx;
          total = sum_list (map snd probs);
          weights = (if total = 0 then map (\<lambda>(n, p). (n, 1 / real (length probs))) probs
                     else map (\<lambda>(n, p). (n, p / total)) probs)
      in \<Sum>(n, w) \<leftarrow> weights. w * profile_ticket prs (profile_named params n))"

text \<open>
  A demand configuration whose only segment gives the weights 1 and 1 to two profiles, a
  pintxo and a bocadillo with a sidra.
\<close>

definition weighted_demand :: demand_params where
  "weighted_demand =
     example_demand
       \<lparr>order_profiles :=
          [(''solo'', \<lparr>name = ''solo'', profile_items = [(''pintxo'', 1)]\<rparr>),
           (''menu'', \<lparr>name = ''menu'', profile_items = [(''bocadillo'', 1), (''sidra'', 1)]\<rparr>)],
        order_mix_segments :=
          [\<lparr>from_turn = 0, to_turn = 0, profile_probs = [(''solo'', 1), (''menu'', 1)]\<rparr>]\<rparr>"

definition example_prices :: "product_name \<rightharpoonup> real" where
  "example_prices = map_of [(''pintxo'', 3), (''bocadillo'', 5), (''sidra'', 2)]"

section \<open>Valid configurations and the bounds on stock, cash and prices\<close>

text \<open>
  A configuration is valid when its initial cash, stock and prices are not negative and
  no order profile has a negative quantity. \<open>within_bounds\<close> is the invariant of the
  world state: cash and prices are not negative, no stock is below the tolerance of the
  stock test, and no pending delivery and no queued order has a negative quantity.
\<close>

definition nonneg_quantities :: "(string \<times> int) list \<Rightarrow> bool" where
  "nonneg_quantities qs = list_all (\<lambda>(k, qty). 0 \<le> qty) qs"

definition prices_nonneg :: "(product_name \<rightharpoonup> real) \<Rightarrow> bool" where
  "prices_nonneg prs = (\<forall>p v. prs p = Some v \<longrightarrow> 0 \<le> v)"

definition stock_bounded :: "(ingredient_name \<rightharpoonup> real) \<Rightarrow> bool" where
  "stock_bounded stock = (\<forall>ing v. stock ing = Some v \<longrightarrow> - (1 / 10 ^ 9) \<le> v)"

definition valid_config :: "config \<Rightarrow> bool" where
  "valid_config cfg =
     (0 \<le> initial_cash (initial cfg)
      \<and> list_all (\<lambda>(ing, v). 0 \<le> v) (initial_stock (initial cfg))
      \<and> list_all (\<lambda>(p, v). 0 \<le> v) (initial_prices (initial cfg))
      \<and> list_all (\<lambda>(n, profile). nonneg_quantities (profile_items profile))
           (order_profiles (demand cfg)))"

definition within_bounds :: "state \<Rightarrow> bool" where
  "within_bounds st =
     (0 \<le> cash st
      \<and> prices_nonneg (prices st)
      \<and> stock_bounded (stock_on_hand st)
      \<and> list_all (\<lambda>d. nonneg_quantities (quantities d)) (inbound_deliveries st)
      \<and> list_all (\<lambda>order. nonneg_quantities (items order)) (order_queue st))"

definition scan_within_bounds :: "scan_state \<Rightarrow> bool" where
  \<comment> \<open>the same bounds on the local variables of the fulfilment scan\<close>
  "scan_within_bounds st =
     (stock_bounded (scan_stock st)
      \<and> nonneg_quantities (sold_products st)
      \<and> list_all (\<lambda>order. nonneg_quantities (items order)) (next_queue st))"

definition snapshot_within_bounds :: "snapshot \<Rightarrow> bool" where
  "snapshot_within_bounds snap =
     (0 \<le> snap_cash snap \<and> prices_nonneg (snap_prices snap) \<and> stock_bounded (snap_stock snap))"

section \<open>Configurations complete enough to settle a step\<close>

text \<open>
  What the demand and settlement phase looks up: the market-customer figure of the
  step, the configured profile of every name in the step's profile probabilities, and
  the price and the reference price of every product of these profiles (of the three
  products when there are no probabilities); then the price of every product that can
  be sold, those of the three products and of the queued orders. The generator is
  expected to draw an index below the number of profiles it chooses from.
\<close>

definition priced :: "(product_name \<rightharpoonup> real) \<Rightarrow> (product_name \<times> int) list \<Rightarrow> bool" where
  "priced prs its = list_all (\<lambda>(p, qty). prs p \<noteq> None) its"

definition demand_ready ::
  "'g rng_ops \<Rightarrow> (product_name \<rightharpoonup> real) \<Rightarrow> demand_params \<Rightarrow> int \<Rightarrow> bool" where
  "demand_ready R prs params turn_idx =
     (let probs = find_order_mix_segment params turn_idx
      in 0 \<le> turn_idx \<and> turn_idx < int (length (customers_curve params))
         \<and> (probs = [] \<longrightarrow>
               list_all (\<lambda>p. prs p \<noteq> None \<and> map_of (price_ref params) p \<noteq> None)
                 [''pintxo'', ''bocadillo'', ''sidra''])
         \<and> list_all (\<lambda>(n, p). case map_of (order_profiles params) n of
                                  None \<Rightarrow> False
                                | Some profile \<Rightarrow>
                                    priced prs (profile_items profile)
                                    \<and> priced (map_of (price_ref params)) (profile_items profile))
              probs
         \<and> (probs \<noteq> [] \<longrightarrow> (\<forall>ws g. fst (choice R (length probs) ws g) < length probs)))"

definition settlement_ready :: "'g rng_ops \<Rightarrow> 'g simulator \<Rightarrow> bool" where
  "settlement_ready R s =
     (demand_ready R (prices (state s)) (demand (config s)) (turn (state s))
      \<and> list_all (\<lambda>p. prices (state s) p \<noteq> None) [''pintxo'', ''bocadillo'', ''sidra'']
      \<and> list_all (\<lambda>order. priced (prices (state s)) (items order)) (order_queue (state s)))"

text \<open>The example configuration without a market-customer figure for any turn.\<close>

definition no_curve_config :: config where
  "no_curve_config = example_config\<lparr>demand := example_demand\<lparr>customers_curve := []\<rparr>\<rparr>"

definition no_curve_sim :: "unit simulator" where
  "no_curve_sim = Simulator example_rng no_curve_config None"

text \<open>A decision-maker that looks at the status and returns without ending its turn.\<close>

definition idle_agent :: "int \<Rightarrow> agent_turn" where
  "idle_agent t =
     \<lparr>invocations = [\<lparr>call = Get_status, call_id = [], arguments = None\<rparr>],
      actions = [''get_status''], used_tokens_in = 0, used_tokens_out = 0, used_cost_eur = 0\<rparr>"

section \<open>Reachable simulator states\<close>

text \<open>
  The states an episode can pass through: a simulator as constructed or reset, and
  whatever an operation of the mutation interface or a phase of the turn engine makes of
  a reachable state, in any order. An operation that raises produces no state.
\<close>

inductive reachable :: "'g rng_ops \<Rightarrow> 'g simulator \<Rightarrow> bool" for R :: "'g rng_ops" where
  created: "reachable R (Simulator R cfg r)"
| was_reset: "reachable R s \<Longrightarrow> reachable R (reset s)"
| turn_started:
    "reachable R s \<Longrightarrow>
     reachable R (s\<lparr>state := (state s)\<lparr>turn := t\<rparr>, end_turn_requested := False,
                    agent_actions_trace := []\<rparr>)"
| trips_updated: "reachable R s \<Longrightarrow> reachable R (update_worker_trips s)"
| deliveries_received: "reachable R s \<Longrightarrow> reachable R (receive_deliveries s)"
| invoked: "reachable R s \<Longrightarrow> invoke i s = Inr (result, s') \<Longrightarrow> reachable R s'"
| played: "reachable R s \<Longrightarrow> play_turn a s = Inr (acts, s') \<Longrightarrow> reachable R s'"
| sold: "reachable R s \<Longrightarrow> simulate_demand_and_sales R s = Inr (out, s') \<Longrightarrow> reachable R s'"
| settled:
    "reachable R s \<Longrightarrow> settle R t before n tokens_in tokens_out cost s = Inr (r, s') \<Longrightarrow>
     reachable R s'"

definition workers_disjoint :: "state \<Rightarrow> bool" where
  "workers_disjoint st =
     (\<forall>a \<in> set (worker_assignments st). workers_on_trip st (employee_id a) = None)"

section \<open>Properties of \<open>place_order\<close>\<close>

lemma order_cost_loop_sum:
  "order_cost_loop cs qs acc = Inr (Inr cost) \<Longrightarrow>
     cost = acc + (\<Sum>(ing, qty) \<leftarrow> qs. per_unit_of cs ing * real_of_int qty)"
  by (induction cs qs acc rule: order_cost_loop.induct)
     (auto simp: per_unit_of_def split: if_splits option.splits)

lemma order_workers_loop_seen:
  "order_workers_loop n trips ws seen = Inr seen' \<Longrightarrow> seen' = seen @ ws"
  by (induction n trips ws seen rule: order_workers_loop.induct) (auto split: if_splits)

lemma order_workers_loop_free:
  "order_workers_loop n trips ws seen = Inr seen' \<Longrightarrow> \<forall>w \<in> set ws. trips w = None"
  by (induction n trips ws seen rule: order_workers_loop.induct) (auto split: if_splits)

lemma set_normalize_assignments [simp]: "set (normalize_assignments as) = set as"
  by (simp add: normalize_assignments_def)

lemma state_record_tool_call [simp]: "state (record_tool_call nm cid args res s) = state s"
  by (simp add: record_tool_call_def)

lemma config_record_tool_call [simp]: "config (record_tool_call nm cid args res s) = config s"
  by (simp add: record_tool_call_def)

lemma state_count_call [simp]: "state (count_call s) = state s"
  by (simp add: count_call_def)

lemma config_count_call [simp]: "config (count_call s) = config s"
  by (simp add: count_call_def)

lemma ToolResult_fields [simp]:
  "ok (ToolResult b) = b" "accepted (ToolResult b) = None" "reason (ToolResult b) = None"
  by (simp_all add: ToolResult_def)

text \<open>
  C5. When \<open>place_order\<close> accepts a purchase, the same call takes the total cost of the
  quantities from the cash, appends a delivery with exactly those quantities that arrives
  at the current turn plus the lead time, removes every listed worker from the
  assignments and enters every listed worker in \<open>workers_on_trip\<close> with the lead time as
  the number of turns left.
\<close>

theorem place_order_accepted:
  assumes "place_order qs workers cid args s = Inr (result, s')"
    and "accepted result = Some True"
  shows "cash (state s') =
           cash (state s) - (\<Sum>(ing, qty) \<leftarrow> qs. per_unit_of (costs (config s)) ing * real_of_int qty)
         \<and> inbound_deliveries (state s') =
             inbound_deliveries (state s) @
               [\<lparr>delivery_arrival_turn = turn (state s) + lead_time (config s), quantities = qs\<rparr>]
         \<and> (\<forall>w \<in> set workers.
               w \<notin> employee_id ` set (worker_assignments (state s'))
               \<and> workers_on_trip (state s') w = Some (lead_time (config s)))"
  using assms
  apply (simp add: place_order_def Let_def split: sum.splits if_splits)
  apply (auto simp: set_worker_assignments_def Let_def dest!: order_cost_loop_sum order_workers_loop_seen)
  done

lemmas example_defs = example_sim_def example_config_def example_demand_def example_rng_def
  Simulator_def init_state_def Let_def

lemma example_sim_fields:
  "cash (state example_sim) = 100" "inbound_deliveries (state example_sim) = []"
  "turn (state example_sim) = 0" "lead_time (config example_sim) = 2"
  "costs (config example_sim) = [(''txistorra'', 1), (''pan'', 1 / 2), (''sidra'', 1)]"
  by (simp_all add: example_defs)

lemma example_purchase_accepted:
  "\<exists>result s'. place_order [(''pan'', 4)] [1] [] None example_sim = Inr (result, s')
     \<and> accepted result = Some True"
  by (simp add: example_defs place_order_def count_call_def record_tool_call_def
      set_worker_assignments_def ToolResult_def)

theorem place_order_accepted_witness:
  "\<exists>result s'. place_order [(''pan'', 4)] [1] [] None example_sim = Inr (result, s')
     \<and> accepted result = Some True
     \<and> cash (state s') = 98
     \<and> inbound_deliveries (state s') = [\<lparr>delivery_arrival_turn = 2, quantities = [(''pan'', 4)]\<rparr>]
     \<and> 1 \<notin> employee_id ` set (worker_assignments (state s'))
     \<and> workers_on_trip (state s') 1 = Some 2"
proof -
  obtain result s' where h: "place_order [(''pan'', 4)] [1] [] None example_sim = Inr (result, s')"
      "accepted result = Some True"
    using example_purchase_accepted by blast
  from place_order_accepted [OF h]
  have "cash (state s') = 98
     \<and> inbound_deliveries (state s') = [\<lparr>delivery_arrival_turn = 2, quantities = [(''pan'', 4)]\<rparr>]
     \<and> 1 \<notin> employee_id ` set (worker_assignments (state s'))
     \<and> workers_on_trip (state s') 1 = Some 2"
    by (simp add: example_sim_fields per_unit_of_def)
  with h show ?thesis by blast
qed

lemma order_weight_loop_sum:
  "order_weight_loop ws qs acc =
     acc + (\<Sum>(ing, qty) \<leftarrow> qs. per_unit_of ws ing * real_of_int qty)"
  by (induction ws qs acc rule: order_weight_loop.induct) (auto simp: per_unit_of_def)

lemma order_cost_loop_priced:
  "\<forall>(ing, qty) \<in> set qs. map_of cs ing \<noteq> None \<Longrightarrow> \<exists>x. order_cost_loop cs qs acc = Inr x"
  by (induction cs qs acc rule: order_cost_loop.induct) auto

lemmas tolerance_defs = tolerance_sim_def tolerance_config_def example_config_def
  example_demand_def example_rng_def Simulator_def init_state_def Let_def

text \<open>
  C4, as stated, fails: \<open>place_order\<close> compares the total weight with the carrying
  capacity plus a tolerance of \<open>1e-9\<close>. One unit of bread of weight 10.0000000005 exceeds
  what one worker carries (10), and the purchase is accepted and paid.
\<close>

theorem place_order_overweight_counterexample:
  "(\<Sum>(ing, qty) \<leftarrow> [(''pan'', 1)].
       per_unit_of (ingredient_weights (config tolerance_sim)) ing * real_of_int qty)
     > real (length [1 :: int]) * worker_max_carry_weight (config tolerance_sim)
   \<and> (\<exists>result s'. place_order [(''pan'', 1)] [1] [] None tolerance_sim = Inr (result, s')
         \<and> ok result \<and> accepted result = Some True
         \<and> cash (state tolerance_sim) = 100 \<and> cash (state s') = 199 / 2
         \<and> inbound_deliveries (state tolerance_sim) = []
         \<and> inbound_deliveries (state s') =
             [\<lparr>delivery_arrival_turn = 2, quantities = [(''pan'', 1)]\<rparr>])"
  by (simp add: tolerance_defs per_unit_of_def place_order_def count_call_def
      record_tool_call_def set_worker_assignments_def ToolResult_def)

text \<open>
  C4, amended. A call of \<open>place_order\<close> whose ingredients all have a configured cost and
  whose total weight exceeds the number of workers sent times \<open>worker_max_carry_weight\<close>
  by more than \<open>1e-9\<close> returns a failure with a reason and leaves the world state (cash,
  stock and pending deliveries among the rest) as it was.
\<close>

theorem place_order_overweight_rejected:
  assumes priced: "\<forall>(ing, qty) \<in> set qs. map_of (costs (config s)) ing \<noteq> None"
    and heavy: "(\<Sum>(ing, qty) \<leftarrow> qs. per_unit_of (ingredient_weights (config s)) ing * real_of_int qty)
                  > real (length workers) * worker_max_carry_weight (config s) + 1 / 10 ^ 9"
  shows "\<exists>result s'. place_order qs workers cid args s = Inr (result, s')
           \<and> \<not> ok result \<and> reason result \<noteq> None \<and> state s' = state s"
proof -
  from order_cost_loop_priced [OF priced] obtain x where
    x: "order_cost_loop (costs (config s)) qs 0 = Inr x" by blast
  from heavy have w: "order_weight_loop (ingredient_weights (config s)) qs 0
      > real (length workers) * worker_max_carry_weight (config s) + 1 / 10 ^ 9"
    by (simp add: order_weight_loop_sum)
  show ?thesis
    using x w by (cases x) (auto simp: place_order_def Let_def split: sum.splits)
qed

theorem place_order_overweight_rejected_witness:
  "\<exists>result s'. place_order [(''sidra'', 11)] [1] [] None example_sim = Inr (result, s')
     \<and> \<not> ok result \<and> reason result \<noteq> None \<and> state s' = state example_sim"
proof -
  have "\<forall>(ing, qty) \<in> set [(''sidra'', 11 :: int)]. map_of (costs (config example_sim)) ing \<noteq> None"
    by (simp add: example_defs)
  moreover have "(\<Sum>(ing, qty) \<leftarrow> [(''sidra'', 11 :: int)].
        per_unit_of (ingredient_weights (config example_sim)) ing * real_of_int qty)
      > real (length [1 :: int]) * worker_max_carry_weight (config example_sim) + 1 / 10 ^ 9"
    by (simp add: example_defs per_unit_of_def)
  ultimately show ?thesis by (rule place_order_overweight_rejected)
qed

section \<open>The operations raise no exception, with one exception\<close>

lemma get_status_returns: "\<exists>result s'. get_status cid args s = Inr (result, s') \<and> ok result \<and> state s' = state s"
  by (simp add: get_status_def Let_def)

lemma get_prices_returns: "\<exists>result s'. get_prices cid args s = Inr (result, s') \<and> ok result \<and> state s' = state s"
  by (simp add: get_prices_def Let_def)

lemma end_turn_returns: "\<exists>result s'. end_turn cid args s = Inr (result, s') \<and> ok result \<and> state s' = state s"
  by (simp add: end_turn_def Let_def count_call_def)

lemma set_prices_returns:
  "\<exists>result s'. set_prices p cid args s = Inr (result, s')
     \<and> (\<not> ok result \<longrightarrow> reason result \<noteq> None \<and> state s' = state s)"
  by (auto simp: set_prices_def Let_def split: option.splits)

lemma assign_workers_returns:
  "\<exists>result s'. assign_workers as cid args s = Inr (result, s')
     \<and> (\<not> ok result \<longrightarrow> reason result \<noteq> None \<and> state s' = state s)"
  by (auto simp: assign_workers_def Let_def split: sum.splits option.splits)

lemma place_order_returns_if_priced:
  assumes "\<forall>(ing, qty) \<in> set qs. map_of (costs (config s)) ing \<noteq> None"
  shows "\<exists>result s'. place_order qs ws cid args s = Inr (result, s')
           \<and> (\<not> ok result \<longrightarrow> reason result \<noteq> None \<and> state s' = state s)"
proof -
  from order_cost_loop_priced [OF assms] obtain x where
    x: "order_cost_loop (costs (config s)) qs 0 = Inr x" by blast
  then show ?thesis
    by (cases x) (auto simp: place_order_def Let_def split: sum.splits)
qed

text \<open>
  C3 does not hold of \<open>place_order\<close>: a quantity of an ingredient that \<open>config.costs\<close> does
  not list makes \<open>self.engine.config.costs[ing]\<close> raise KeyError, and the call returns no
  result. (The weight of the same ingredient is looked up with a default of zero.)
\<close>

theorem place_order_unknown_ingredient_raises:
  "place_order [(''queso'', 1)] [1] [] None example_sim = Inl KeyError"
  by (simp add: example_defs place_order_def)

section \<open>Workers: assigned or on a trip, never both\<close>

lemma assign_loop_free:
  "assign_loop n trips as seen counts = Inr c \<Longrightarrow> \<forall>a \<in> set as. trips (employee_id a) = None"
  by (induction n trips as seen counts rule: assign_loop.induct)
     (auto simp: Let_def split: if_splits)

lemma get_status_state: "get_status cid args s = Inr (res, s') \<Longrightarrow> state s' = state s"
  by (auto simp: get_status_def Let_def)

lemma get_prices_state: "get_prices cid args s = Inr (res, s') \<Longrightarrow> state s' = state s"
  by (auto simp: get_prices_def Let_def)

lemma end_turn_state: "end_turn cid args s = Inr (res, s') \<Longrightarrow> state s' = state s"
  by (auto simp: end_turn_def Let_def count_call_def)

lemma set_prices_workers:
  "set_prices p cid args s = Inr (res, s') \<Longrightarrow>
     worker_assignments (state s') = worker_assignments (state s) \<and>
     workers_on_trip (state s') = workers_on_trip (state s)"
  by (auto simp: set_prices_def Let_def split: option.splits)

lemma place_order_disjoint:
  "place_order qs ws cid args s = Inr (res, s') \<Longrightarrow> workers_disjoint (state s) \<Longrightarrow>
     workers_disjoint (state s')"
  by (auto simp: place_order_def Let_def workers_disjoint_def set_worker_assignments_def
      split: sum.splits if_splits dest!: order_workers_loop_seen)

lemma assign_workers_disjoint:
  "assign_workers as cid args s = Inr (res, s') \<Longrightarrow> workers_disjoint (state s) \<Longrightarrow>
     workers_disjoint (state s')"
  by (auto simp: assign_workers_def Let_def workers_disjoint_def set_worker_assignments_def
      split: sum.splits option.splits dest!: assign_loop_free)

lemma invoke_disjoint:
  "invoke i s = Inr (res, s') \<Longrightarrow> workers_disjoint (state s) \<Longrightarrow> workers_disjoint (state s')"
  by (auto simp: invoke_def workers_disjoint_def split: tool_call.splits
      dest: get_status_state get_prices_state end_turn_state set_prices_workers
            place_order_disjoint [unfolded workers_disjoint_def]
            assign_workers_disjoint [unfolded workers_disjoint_def])

lemma run_invocations_disjoint:
  "run_invocations is s = Inr s' \<Longrightarrow> workers_disjoint (state s) \<Longrightarrow> workers_disjoint (state s')"
  by (induction "is" arbitrary: s) (auto split: sum.splits dest: invoke_disjoint)

lemma play_turn_disjoint:
  "play_turn a s = Inr (acts, s') \<Longrightarrow> workers_disjoint (state s) \<Longrightarrow> workers_disjoint (state s')"
  by (auto simp: play_turn_def workers_disjoint_def split: sum.splits
      dest: run_invocations_disjoint [unfolded workers_disjoint_def])

lemma update_worker_trips_disjoint:
  "workers_disjoint (state s) \<Longrightarrow> workers_disjoint (state (update_worker_trips s))"
  by (auto simp: update_worker_trips_def workers_disjoint_def)

lemma receive_deliveries_workers:
  "worker_assignments (state (receive_deliveries s)) = worker_assignments (state s)"
  "workers_on_trip (state (receive_deliveries s)) = workers_on_trip (state s)"
  by (simp_all add: receive_deliveries_def split: prod.splits)

lemma fulfil_workers:
  "fulfil cfg st batch = (out, st') \<Longrightarrow>
     worker_assignments st' = worker_assignments st \<and> workers_on_trip st' = workers_on_trip st"
  by (auto simp: fulfil_def Let_def split: prod.splits)

lemma simulate_workers:
  "simulate_demand_and_sales R s = Inr (out, s') \<Longrightarrow>
     worker_assignments (state s') = worker_assignments (state s) \<and>
     workers_on_trip (state s') = workers_on_trip (state s)"
  by (auto simp: simulate_demand_and_sales_def Let_def split: sum.splits prod.splits
      dest: fulfil_workers)

lemma settle_Inr:
  assumes "settle R t before n ti to c s = Inr (r, s')"
  shows "\<exists>out s4 revenue.
           simulate_demand_and_sales R s = Inr (out, s4) \<and>
           compute_revenue s4 (out_sold_products out) = Inr revenue \<and>
           s' = remember (summarise out (state (credit revenue s4))) (credit revenue s4) \<and>
           tr_state_after r = take_snapshot (state s') (st_queue_end (out_stats out))"
  using assms by (auto simp: settle_def Let_def split: sum.splits)

lemma settle_workers:
  assumes "settle R t before n ti to c s = Inr (r, s')"
  shows "worker_assignments (state s') = worker_assignments (state s) \<and>
     workers_on_trip (state s') = workers_on_trip (state s)"
proof -
  from settle_Inr [OF assms] obtain out s4 revenue where
    sim: "simulate_demand_and_sales R s = Inr (out, s4)" and
    s': "s' = remember (summarise out (state (credit revenue s4))) (credit revenue s4)"
    by blast
  from simulate_workers [OF sim] s' show ?thesis by (simp add: remember_def credit_def)
qed

lemma reachable_workers_disjoint: "reachable R s \<Longrightarrow> workers_disjoint (state s)"
proof (induction rule: reachable.induct)
  case (created cfg r)
  show ?case by (simp add: Simulator_def init_state_def Let_def workers_disjoint_def)
next
  case (was_reset s)
  show ?case by (simp add: reset_def init_state_def Let_def workers_disjoint_def)
next
  case (turn_started s t)
  then show ?case by (simp add: workers_disjoint_def)
next
  case (trips_updated s)
  from trips_updated.IH show ?case by (rule update_worker_trips_disjoint)
next
  case (deliveries_received s)
  then show ?case by (simp add: workers_disjoint_def receive_deliveries_workers)
next
  case (invoked s i result s')
  then show ?case by (blast intro: invoke_disjoint)
next
  case (played s a acts s')
  then show ?case by (blast intro: play_turn_disjoint)
next
  case (sold s out s')
  then show ?case by (auto simp: workers_disjoint_def dest!: simulate_workers)
next
  case (settled s t before n tokens_in tokens_out cost r s')
  then show ?case by (auto simp: workers_disjoint_def dest!: settle_workers)
qed

lemma begin_turn_reachable: "reachable R s \<Longrightarrow> reachable R (begin_turn t s)"
  unfolding begin_turn_def
  by (intro reachable.deliveries_received reachable.trips_updated reachable.turn_started)

lemma run_turn_reachable:
  assumes "reachable R s" and "run_turn R t a s = Inr (r, s')"
  shows "reachable R s'"
proof -
  from assms(2) obtain acts s3 b n ti to c where
    p: "play_turn a (begin_turn t s) = Inr (acts, s3)" and
    q: "settle R t b n ti to c s3 = Inr (r, s')"
    by (auto simp: run_turn_def Let_def split: sum.splits if_splits)
  from assms(1) have "reachable R (begin_turn t s)" by (rule begin_turn_reachable)
  then have "reachable R s3" using p by (rule reachable.played)
  then show ?thesis using q by (rule reachable.settled)
qed

lemma run_turns_reachable:
  "reachable R s \<Longrightarrow> run_turns R agent ts s written = (written', Inr s') \<Longrightarrow> reachable R s'"
  by (induction ts arbitrary: s written)
     (auto split: sum.splits intro: run_turn_reachable)

lemma run_episode_reachable:
  assumes "reachable R s" and "run_episode R agent s = (written, Inr (result, s'))"
  shows "reachable R s'"
proof -
  from assms(2) obtain w where
    "run_turns R agent (map int [0 ..< nat (num_turns (config (reset s)))]) (reset s) [] = (w, Inr s')"
    by (auto simp: run_episode_def Let_def split: prod.splits sum.splits)
  with reachable.was_reset [OF assms(1)] show ?thesis by (rule run_turns_reachable)
qed

text \<open>
  C9. In every reachable state of the simulator (as constructed or reset, and after any
  sequence of operations of the mutation interface and phases of the turn engine) no
  worker identifier is both in \<open>worker_assignments\<close> and in \<open>workers_on_trip\<close>.
\<close>

theorem worker_never_assigned_and_on_trip:
  assumes "reachable R s"
  shows "\<not> (\<exists>w. w \<in> employee_id ` set (worker_assignments (state s))
               \<and> w \<in> dom (workers_on_trip (state s)))"
  using reachable_workers_disjoint [OF assms] by (auto simp: workers_disjoint_def)


lemma example_purchase_invoked:
  "\<exists>result s'. invoke \<lparr>call = Place_order [(''pan'', 4)] [1], call_id = [], arguments = None\<rparr>
       example_sim = Inr (result, s') \<and> workers_on_trip (state s') 1 = Some 2"
  by (simp add: invoke_def example_defs place_order_def count_call_def record_tool_call_def
      set_worker_assignments_def ToolResult_def)

theorem worker_never_assigned_and_on_trip_witness:
  "\<exists>result s'. invoke \<lparr>call = Place_order [(''pan'', 4)] [1], call_id = [], arguments = None\<rparr>
       example_sim = Inr (result, s')
     \<and> reachable example_rng s'
     \<and> workers_on_trip (state s') 1 = Some 2
     \<and> \<not> (\<exists>w. w \<in> employee_id ` set (worker_assignments (state s'))
               \<and> w \<in> dom (workers_on_trip (state s')))"
proof -
  obtain result s' where
    h: "invoke \<lparr>call = Place_order [(''pan'', 4)] [1], call_id = [], arguments = None\<rparr>
          example_sim = Inr (result, s')" "workers_on_trip (state s') 1 = Some 2"
    using example_purchase_invoked by blast
  have "reachable example_rng example_sim"
    unfolding example_sim_def by (rule reachable.created)
  then have r: "reachable example_rng s'" using h(1) by (rule reachable.invoked)
  from worker_never_assigned_and_on_trip [OF r] h r show ?thesis by blast
qed

section \<open>The fulfilment scan\<close>

lemma scan_body_next_queue:
  "next_queue (scan_body rc order st) = next_queue st \<or>
   next_queue (scan_body rc order st) = next_queue st @ [order]"
  by (simp add: scan_body_def Let_def split: prod.splits)

lemma scan_next_queue_prefix: "\<exists>ys. next_queue (scan rc os st) = next_queue st @ ys"
proof (induction os arbitrary: st)
  case Nil
  show ?case by simp
next
  case (Cons order rest)
  show ?case
  proof (cases "remaining_customers st \<le> 0")
    case True
    then show ?thesis by simp
  next
    case False
    from Cons.IH [of "scan_body rc order st"] obtain ys where
      "next_queue (scan rc rest (scan_body rc order st)) = next_queue (scan_body rc order st) @ ys"
      by blast
    with False scan_body_next_queue [of rc order st] show ?thesis by auto
  qed
qed

lemma scan_unserved_prefix: "\<exists>ys. unserved_orders (scan rc os st) = unserved_orders st @ ys"
proof (induction os arbitrary: st)
  case Nil
  show ?case by simp
next
  case (Cons order rest)
  show ?case
  proof (cases "remaining_customers st \<le> 0")
    case True
    then show ?thesis by simp
  next
    case False
    from Cons.IH [of "scan_body rc order st"] obtain ys where
      "unserved_orders (scan rc rest (scan_body rc order st)) =
         unserved_orders (scan_body rc order st) @ ys"
      by blast
    moreover have "\<exists>zs. unserved_orders (scan_body rc order st) = unserved_orders st @ zs"
      by (simp add: scan_body_def Let_def split: prod.splits)
    ultimately show ?thesis using False by auto
  qed
qed

lemma scan_next_queue_subset: "set (next_queue (scan rc os st)) \<subseteq> set (next_queue st) \<union> set os"
proof (induction os arbitrary: st)
  case Nil
  show ?case by simp
next
  case (Cons order rest)
  show ?case
  proof (cases "remaining_customers st \<le> 0")
    case True
    then show ?thesis by auto
  next
    case False
    with Cons.IH [of "scan_body rc order st"] scan_body_next_queue [of rc order st]
    show ?thesis by auto
  qed
qed

lemmas scan_example_defs = grill_recipes_def grill_scan_state_def bocadillo_order_def
  pintxo_order_def scan_body_def can_fulfill_def stock_get_def recipe_of_def per_unit_of_def
  Let_def

text \<open>
  C1, as stated, fails: the scan compares a requirement with the remaining budget plus a
  tolerance of \<open>1e-9\<close>. With one strip of grill capacity left, an order that takes
  1.0000000005 strips exceeds the budget, and is served: it is neither requeued nor
  recorded as unserved.
\<close>

theorem scan_soft_block_counterexample:
  "0 < remaining_customers grill_scan_state
   \<and> fst (capacity_needs grill_recipes (items bocadillo_order) (0, 0))
       > remaining_txistorra grill_scan_state
   \<and> next_queue (scan grill_recipes [bocadillo_order] grill_scan_state) = []
   \<and> unserved_orders (scan grill_recipes [bocadillo_order] grill_scan_state) = []
   \<and> orders_served (scan grill_recipes [bocadillo_order] grill_scan_state) = [[(''bocadillo'', 1)]]"
  by (simp add: scan_example_defs)

text \<open>
  C1, amended. In the scan over the surviving queue followed by the new orders, at an
  order reached with a customer slot left whose grill or drink requirement exceeds the
  remaining budget of that resource by more than \<open>1e-9\<close>, the order is appended to the
  next queue and to the unserved orders and the scan goes on with the next order, with
  the budgets, the stock and the served orders as they were (soft block). At an order
  reached with no customer slot left (a remaining budget of zero or less), that order and
  every order after it are appended to the next queue and to the unserved orders, and
  nothing else is served or consumed (hard stop).
\<close>

theorem scan_soft_block_and_hard_stop:
  "(0 < remaining_customers st
      \<and> (fst (capacity_needs rc (items order) (0, 0)) > remaining_txistorra st + 1 / 10 ^ 9
         \<or> snd (capacity_needs rc (items order) (0, 0)) > remaining_sidra st + 1 / 10 ^ 9)
    \<longrightarrow> (\<exists>st'. scan rc (order # rest) st = scan rc rest st'
            \<and> next_queue st' = next_queue st @ [order]
            \<and> unserved_orders st' = unserved_orders st @ [items order]
            \<and> remaining_customers st' = remaining_customers st
            \<and> remaining_txistorra st' = remaining_txistorra st
            \<and> remaining_sidra st' = remaining_sidra st
            \<and> scan_stock st' = scan_stock st
            \<and> orders_served st' = orders_served st)
        \<and> order \<in> set (next_queue (scan rc (order # rest) st))
        \<and> items order \<in> set (unserved_orders (scan rc (order # rest) st)))
   \<and> (remaining_customers st \<le> 0
    \<longrightarrow> next_queue (scan rc (order # rest) st) = next_queue st @ order # rest
        \<and> unserved_orders (scan rc (order # rest) st) = unserved_orders st @ map items (order # rest)
        \<and> orders_served (scan rc (order # rest) st) = orders_served st
        \<and> served_customers (scan rc (order # rest) st) = served_customers st
        \<and> scan_stock (scan rc (order # rest) st) = scan_stock st)"
proof (intro conjI impI)
  assume soft: "0 < remaining_customers st
      \<and> (fst (capacity_needs rc (items order) (0, 0)) > remaining_txistorra st + 1 / 10 ^ 9
         \<or> snd (capacity_needs rc (items order) (0, 0)) > remaining_sidra st + 1 / 10 ^ 9)"
  define st' where "st' = scan_body rc order st"
  from soft have step: "scan rc (order # rest) st = scan rc rest st'"
    by (simp add: st'_def)
  from soft have body: "next_queue st' = next_queue st @ [order]"
      "unserved_orders st' = unserved_orders st @ [items order]"
      "remaining_customers st' = remaining_customers st"
      "remaining_txistorra st' = remaining_txistorra st"
      "remaining_sidra st' = remaining_sidra st"
      "scan_stock st' = scan_stock st"
      "orders_served st' = orders_served st"
    by (auto simp: st'_def scan_body_def Let_def split: prod.splits)
  from step body show "\<exists>st'. scan rc (order # rest) st = scan rc rest st'
            \<and> next_queue st' = next_queue st @ [order]
            \<and> unserved_orders st' = unserved_orders st @ [items order]
            \<and> remaining_customers st' = remaining_customers st
            \<and> remaining_txistorra st' = remaining_txistorra st
            \<and> remaining_sidra st' = remaining_sidra st
            \<and> scan_stock st' = scan_stock st
            \<and> orders_served st' = orders_served st"
    by blast
  from scan_next_queue_prefix [of rc rest st'] step body(1)
  show "order \<in> set (next_queue (scan rc (order # rest) st))" by auto
  from scan_unserved_prefix [of rc rest st'] step body(2)
  show "items order \<in> set (unserved_orders (scan rc (order # rest) st))" by auto
qed simp_all

theorem scan_soft_block_and_hard_stop_witness:
  "(0 < remaining_customers grill_scan_state
      \<and> fst (capacity_needs grill_recipes [(''bocadillo'', 2)] (0, 0))
          > remaining_txistorra grill_scan_state + 1 / 10 ^ 9
      \<and> \<lparr>items = [(''bocadillo'', 2)], arrival_turn = 0\<rparr>
          \<in> set (next_queue (scan grill_recipes
                 [\<lparr>items = [(''bocadillo'', 2)], arrival_turn = 0\<rparr>, pintxo_order] grill_scan_state)))
   \<and> (remaining_customers (grill_scan_state\<lparr>remaining_customers := 0\<rparr>) \<le> 0
      \<and> next_queue (scan grill_recipes [pintxo_order, bocadillo_order]
           (grill_scan_state\<lparr>remaining_customers := 0\<rparr>)) = [pintxo_order, bocadillo_order])"
proof -
  have a: "0 < remaining_customers grill_scan_state
      \<and> fst (capacity_needs grill_recipes [(''bocadillo'', 2)] (0, 0))
          > remaining_txistorra grill_scan_state + 1 / 10 ^ 9"
    by (simp add: scan_example_defs)
  have b: "remaining_customers (grill_scan_state\<lparr>remaining_customers := 0\<rparr>) \<le> 0
      \<and> next_queue (grill_scan_state\<lparr>remaining_customers := 0\<rparr>) = []"
    by (simp add: grill_scan_state_def)
  from a scan_soft_block_and_hard_stop
         [of grill_scan_state grill_recipes "\<lparr>items = [(''bocadillo'', 2)], arrival_turn = 0\<rparr>"
             "[pintxo_order]"]
  have "\<lparr>items = [(''bocadillo'', 2)], arrival_turn = 0\<rparr>
          \<in> set (next_queue (scan grill_recipes
                 [\<lparr>items = [(''bocadillo'', 2)], arrival_turn = 0\<rparr>, pintxo_order] grill_scan_state))"
    by simp
  moreover from b scan_soft_block_and_hard_stop
         [of "grill_scan_state\<lparr>remaining_customers := 0\<rparr>" grill_recipes pintxo_order
             "[bocadillo_order]"]
  have "next_queue (scan grill_recipes [pintxo_order, bocadillo_order]
           (grill_scan_state\<lparr>remaining_customers := 0\<rparr>)) = [pintxo_order, bocadillo_order]"
    by simp
  ultimately show ?thesis using a b by blast
qed

section \<open>Age-based eviction\<close>

lemma queue_filter_loop_filter:
  "queue_filter_loop t q filtered dropped =
     (filtered @ filter (\<lambda>order. t - arrival_turn order < 2) q,
      dropped + length (filter (\<lambda>order. t - arrival_turn order \<ge> 2) q))"
  by (induction t q filtered dropped rule: queue_filter_loop.induct)
     (auto simp: Let_def MAX_QUEUE_WAIT_TURNS_def)

lemma filter_young_twice:
  "filter (\<lambda>order. (t :: int) - arrival_turn order \<ge> 2)
     (filter (\<lambda>order. t - arrival_turn order < 2) q) = []"
  by (induction q) auto

text \<open>
  C6. At the start of a step's fulfilment every queued order that has waited two turns
  or more (current turn minus arrival turn) is removed from the queue and counted as
  dropped, whatever the capacities are, before anything is accounted: the outcome of the
  fulfilment and the state it leaves are those of a queue that never held these orders,
  but for the count of dropped orders, and no such order is in the queue afterwards. The
  new orders of the step carry the current turn as their arrival turn.
\<close>

theorem aged_orders_dropped_before_scan:
  assumes "\<forall>order \<in> set (orders batch). arrival_turn order = turn st"
    and "fulfil cfg st batch = (out, st')"
  shows "st_dropped_from_queue (out_stats out) =
           length (filter (\<lambda>order. turn st - arrival_turn order \<ge> 2) (order_queue st))
         \<and> (\<forall>order \<in> set (order_queue st'). turn st - arrival_turn order < 2)
         \<and> fulfil cfg (st\<lparr>order_queue :=
               filter (\<lambda>order. turn st - arrival_turn order < 2) (order_queue st)\<rparr>) batch =
             (out\<lparr>out_stats := (out_stats out)\<lparr>st_dropped_from_queue := 0\<rparr>\<rparr>, st')"
proof -
  let ?young = "filter (\<lambda>order. turn st - arrival_turn order < 2) (order_queue st)"
  let ?st1 = "st\<lparr>order_queue := ?young\<rparr>"
  let ?fin = "scan (recipes cfg) (?young @ orders batch) (initial_scan ?st1)"
  from assms(2) have out: "st_dropped_from_queue (out_stats out) =
      length (filter (\<lambda>order. turn st - arrival_turn order \<ge> 2) (order_queue st))"
    and st': "order_queue st' = next_queue ?fin"
    by (auto simp: fulfil_def Let_def queue_filter_loop_filter)
  have "set (next_queue ?fin) \<subseteq> set ?young \<union> set (orders batch)"
    using scan_next_queue_subset [of "recipes cfg" "?young @ orders batch" "initial_scan ?st1"]
    by (simp add: initial_scan_def)
  with assms(1) st' have young: "\<forall>order \<in> set (order_queue st'). turn st - arrival_turn order < 2"
    by auto
  from assms(2) have "fulfil cfg ?st1 batch =
      (out\<lparr>out_stats := (out_stats out)\<lparr>st_dropped_from_queue := 0\<rparr>\<rparr>, st')"
    by (auto simp: fulfil_def Let_def queue_filter_loop_filter filter_young_twice)
  with out young show ?thesis by blast
qed

theorem aged_orders_dropped_before_scan_witness:
  "\<exists>out st'. fulfil example_config aged_state fresh_batch = (out, st')
     \<and> st_dropped_from_queue (out_stats out) = 1
     \<and> \<lparr>items = [(''pintxo'', 1)], arrival_turn = 0\<rparr> \<notin> set (order_queue st')"
proof -
  obtain out st' where f: "fulfil example_config aged_state fresh_batch = (out, st')"
    by (cases "fulfil example_config aged_state fresh_batch")
  have fresh: "\<forall>order \<in> set (orders fresh_batch). arrival_turn order = turn aged_state"
    by (simp add: fresh_batch_def aged_state_def)
  from aged_orders_dropped_before_scan [OF fresh f]
  have "st_dropped_from_queue (out_stats out) = 1"
    and "\<forall>order \<in> set (order_queue st'). turn aged_state - arrival_turn order < 2"
    by (simp_all add: aged_state_def)
  then have "st_dropped_from_queue (out_stats out) = 1
     \<and> \<lparr>items = [(''pintxo'', 1)], arrival_turn = 0\<rparr> \<notin> set (order_queue st')"
    by (auto simp: aged_state_def)
  with f show ?thesis by blast
qed

lemma orders_loop_arrival:
  "orders_loop R params probs t n g os dem = Inr (os', dem', g') \<Longrightarrow>
     \<forall>order \<in> set os. arrival_turn order = t \<Longrightarrow> \<forall>order \<in> set os'. arrival_turn order = t"
  by (induction R params probs t n g os dem rule: orders_loop.induct)
     (auto split: if_splits sum.splits option.splits)

lemma sample_orders_arrival:
  "sample_orders_for_agent R prs params t g = Inr (batch, g') \<Longrightarrow>
     \<forall>order \<in> set (orders batch). arrival_turn order = t"
  by (auto simp: sample_orders_for_agent_def split: sum.splits dest!: orders_loop_arrival)

section \<open>The expected ticket\<close>

lemmas weighted_defs = weighted_demand_def example_demand_def find_order_mix_segment_def

text \<open>
  C8 does not hold of \<open>_compute_expected_ticket\<close>: it adds probability times ticket with
  the profile probabilities as configured and never normalises them, although its
  docstring announces the mean ticket of a customer and \<open>_sample_profile\<close> normalises the
  same probabilities and falls back to a uniform mix. For the weights 1 and 1 of a pintxo
  (3) and a bocadillo with a sidra (5 + 2) it returns 10, more than either ticket; the
  normalised mix of the claim gives 5.
\<close>

theorem expected_ticket_not_normalised:
  "compute_expected_ticket example_prices weighted_demand 0
     = Inr 10
   \<and> spec_expected_ticket example_prices weighted_demand 0
     = 5"
  by (simp add: compute_expected_ticket_def spec_expected_ticket_def weighted_defs
      profile_ticket_def profile_named_def example_prices_def)
section \<open>Stock, cash and prices stay within their bounds\<close>

lemma init_state_within_bounds: "valid_config cfg \<Longrightarrow> within_bounds (init_state cfg)"
  by (auto simp: valid_config_def within_bounds_def init_state_def Let_def prices_nonneg_def
      stock_bounded_def list_all_iff dest!: map_of_SomeD)

lemma stock_get_bound: "stock_bounded stock \<Longrightarrow> - (1 / 10 ^ 9) \<le> stock_get stock k"
  by (auto simp: stock_get_def stock_bounded_def split: option.splits)

lemma stock_bounded_upd:
  "stock_bounded stock \<Longrightarrow> - (1 / 10 ^ 9) \<le> v \<Longrightarrow> stock_bounded (stock(k \<mapsto> v))"
  by (simp add: stock_bounded_def)

lemma receive_quantities_bound:
  "nonneg_quantities qs \<Longrightarrow> stock_bounded stock \<Longrightarrow> stock_bounded (receive_quantities stock qs)"
proof (induction stock qs rule: receive_quantities.induct)
  case (1 stock)
  then show ?case by simp
next
  case (2 stock ing qty rest)
  from "2.prems"(1) have q: "0 \<le> qty" and rest: "nonneg_quantities rest"
    by (simp_all add: nonneg_quantities_def)
  from stock_get_bound [OF "2.prems"(2), of ing] q
  have "- (1 / 10 ^ 9) \<le> stock_get stock ing + real_of_int qty" by simp
  with "2.prems"(2) have "stock_bounded (stock(ing \<mapsto> stock_get stock ing + real_of_int qty))"
    by (rule stock_bounded_upd)
  with rest have "stock_bounded
      (receive_quantities (stock(ing \<mapsto> stock_get stock ing + real_of_int qty)) rest)"
    by (rule "2.IH")
  then show ?case by simp
qed

lemma receive_loop_bound:
  "receive_loop t ds stock remaining = (stock', remaining') \<Longrightarrow>
   list_all (\<lambda>d. nonneg_quantities (quantities d)) ds \<Longrightarrow>
   list_all (\<lambda>d. nonneg_quantities (quantities d)) remaining \<Longrightarrow>
   stock_bounded stock \<Longrightarrow>
   stock_bounded stock' \<and> list_all (\<lambda>d. nonneg_quantities (quantities d)) remaining'"
proof (induction t ds stock remaining rule: receive_loop.induct)
  case (1 current_turn stock remaining)
  then show ?case by simp
next
  case (2 current_turn d ds stock remaining)
  from "2.prems"(2) have d: "nonneg_quantities (quantities d)"
    and ds: "list_all (\<lambda>d. nonneg_quantities (quantities d)) ds" by simp_all
  show ?case
  proof (cases "delivery_arrival_turn d = current_turn")
    case True
    with "2.prems"(1) have
      r: "receive_loop current_turn ds (receive_quantities stock (quantities d)) remaining
            = (stock', remaining')" by simp
    from d "2.prems"(4) have "stock_bounded (receive_quantities stock (quantities d))"
      by (rule receive_quantities_bound)
    with "2.IH"(1) [OF True r ds "2.prems"(3)] show ?thesis .
  next
    case False
    with "2.prems"(1) have
      r: "receive_loop current_turn ds stock (remaining @ [d]) = (stock', remaining')" by simp
    from d "2.prems"(3) have "list_all (\<lambda>d. nonneg_quantities (quantities d)) (remaining @ [d])"
      by simp
    from "2.IH"(2) [OF False r ds this "2.prems"(4)] show ?thesis .
  qed
qed

lemma receive_deliveries_within_bounds:
  assumes "within_bounds (state s)"
  shows "within_bounds (state (receive_deliveries s))"
proof -
  obtain stock' remaining' where
    r: "receive_loop (turn (state s)) (inbound_deliveries (state s)) (stock_on_hand (state s)) []
          = (stock', remaining')"
    by (cases "receive_loop (turn (state s)) (inbound_deliveries (state s)) (stock_on_hand (state s)) []")
  from assms have "list_all (\<lambda>d. nonneg_quantities (quantities d)) (inbound_deliveries (state s))"
    and "stock_bounded (stock_on_hand (state s))"
    by (simp_all add: within_bounds_def)
  from receive_loop_bound [OF r this(1) _ this(2)]
  have "stock_bounded stock' \<and> list_all (\<lambda>d. nonneg_quantities (quantities d)) remaining'"
    by simp
  with assms r show ?thesis by (simp add: receive_deliveries_def within_bounds_def)
qed

lemma update_worker_trips_within_bounds:
  "within_bounds (state s) \<Longrightarrow> within_bounds (state (update_worker_trips s))"
  by (simp add: update_worker_trips_def within_bounds_def)

lemma begin_turn_within_bounds:
  assumes "within_bounds (state s)"
  shows "within_bounds (state (begin_turn t s))"
proof -
  from assms have "within_bounds (state (s\<lparr>state := (state s)\<lparr>turn := t\<rparr>,
      end_turn_requested := False, agent_actions_trace := []\<rparr>))"
    by (simp add: within_bounds_def)
  then show ?thesis unfolding begin_turn_def
    by (intro receive_deliveries_within_bounds update_worker_trips_within_bounds)
qed

lemma prices_nonneg_upd:
  "prices_nonneg prs \<Longrightarrow> 0 \<le> v \<Longrightarrow> prices_nonneg (prs(k \<mapsto> v))"
  by (simp add: prices_nonneg_def)

lemma dict_update_nonneg:
  "list_all (\<lambda>(k, v). 0 \<le> v) new \<Longrightarrow> prices_nonneg prs \<Longrightarrow> prices_nonneg (dict_update prs new)"
  by (induction prs new rule: dict_update.induct) (simp_all add: prices_nonneg_upd)

lemma find_negative_None:
  "find (\<lambda>(k, v). v < (0 :: real)) new = None \<Longrightarrow> list_all (\<lambda>(k, v). 0 \<le> v) new"
  by (induction new) (auto split: if_splits)

lemma set_prices_within_bounds:
  "set_prices new cid args s = Inr (res, s') \<Longrightarrow> within_bounds (state s) \<Longrightarrow>
     within_bounds (state s')"
  by (auto simp: set_prices_def Let_def within_bounds_def split: option.splits
      dest!: find_negative_None intro: dict_update_nonneg)

lemma order_cost_loop_nonneg:
  "order_cost_loop cs qs acc = Inr (Inr cost) \<Longrightarrow> nonneg_quantities qs"
  by (induction cs qs acc rule: order_cost_loop.induct)
     (auto simp: nonneg_quantities_def split: if_splits option.splits)

lemma place_order_within_bounds:
  "place_order qs ws cid args s = Inr (res, s') \<Longrightarrow> within_bounds (state s) \<Longrightarrow>
     within_bounds (state s')"
  by (auto simp: place_order_def Let_def within_bounds_def set_worker_assignments_def
      split: sum.splits if_splits dest!: order_cost_loop_nonneg)

lemma assign_workers_within_bounds:
  "assign_workers as cid args s = Inr (res, s') \<Longrightarrow> within_bounds (state s) \<Longrightarrow>
     within_bounds (state s')"
  by (auto simp: assign_workers_def Let_def within_bounds_def set_worker_assignments_def
      split: sum.splits option.splits)

lemma invoke_within_bounds:
  "invoke i s = Inr (res, s') \<Longrightarrow> within_bounds (state s) \<Longrightarrow> within_bounds (state s')"
  by (auto simp: invoke_def split: tool_call.splits
      dest: get_status_state get_prices_state end_turn_state
      intro: set_prices_within_bounds place_order_within_bounds assign_workers_within_bounds)

lemma run_invocations_within_bounds:
  "run_invocations is s = Inr s' \<Longrightarrow> within_bounds (state s) \<Longrightarrow> within_bounds (state s')"
  by (induction "is" arbitrary: s) (auto split: sum.splits dest: invoke_within_bounds)

lemma play_turn_within_bounds:
  "play_turn a s = Inr (acts, s') \<Longrightarrow> within_bounds (state s) \<Longrightarrow> within_bounds (state s')"
  by (auto simp: play_turn_def within_bounds_def split: sum.splits
      dest: run_invocations_within_bounds [unfolded within_bounds_def])

lemma recipe_needs_distinct:
  "distinct (map fst needed) \<Longrightarrow> distinct (map fst (recipe_needs r qty needed))"
  by (induction r qty needed rule: recipe_needs.induct) (simp_all add: distinct_update)

lemma needed_ingredients_distinct:
  "distinct (map fst needed) \<Longrightarrow> distinct (map fst (needed_ingredients rc its needed))"
  by (induction rc its needed rule: needed_ingredients.induct) (simp_all add: recipe_needs_distinct)

lemma can_fulfill_Cons:
  "can_fulfill stock ((ing, n) # rest) \<longleftrightarrow>
     n \<le> stock_get stock ing + 1 / 10 ^ 9 \<and> can_fulfill stock rest"
  by (auto simp: can_fulfill_def)

lemma can_fulfill_upd:
  "k \<notin> fst ` set needed \<Longrightarrow> can_fulfill (stock(k \<mapsto> v)) needed = can_fulfill stock needed"
  by (induction needed) (auto simp: can_fulfill_def stock_get_def)

lemma consume_stock_bounded:
  "distinct (map fst needed) \<Longrightarrow> can_fulfill stock needed \<Longrightarrow> stock_bounded stock \<Longrightarrow>
     stock_bounded (consume_stock stock needed)"
proof (induction stock needed rule: consume_stock.induct)
  case (1 stock)
  then show ?case by simp
next
  case (2 stock ing total_need rest)
  from "2.prems"(1) have fresh: "ing \<notin> fst ` set rest" and d: "distinct (map fst rest)" by auto
  from "2.prems"(2) have enough: "total_need \<le> stock_get stock ing + 1 / 10 ^ 9"
    and rest: "can_fulfill stock rest" by (simp_all add: can_fulfill_Cons)
  from enough have "- (1 / 10 ^ 9) \<le> stock_get stock ing - total_need" by simp
  with "2.prems"(3) have b: "stock_bounded (stock(ing \<mapsto> stock_get stock ing - total_need))"
    by (rule stock_bounded_upd)
  from rest fresh have "can_fulfill (stock(ing \<mapsto> stock_get stock ing - total_need)) rest"
    by (simp add: can_fulfill_upd)
  from d this b show ?case
    unfolding consume_stock.simps by (rule "2.IH")
qed

lemma nonneg_quantities_update:
  "nonneg_quantities d \<Longrightarrow> 0 \<le> v \<Longrightarrow> nonneg_quantities (AList.update k v d)"
  by (induction d) (auto simp: nonneg_quantities_def)

lemma nonneg_quantities_map_of:
  "nonneg_quantities d \<Longrightarrow> map_of d k = Some u \<Longrightarrow> 0 \<le> u"
  by (auto simp: nonneg_quantities_def list_all_iff dest!: map_of_SomeD)

lemma add_items_nonneg:
  "nonneg_quantities d \<Longrightarrow> nonneg_quantities its \<Longrightarrow> nonneg_quantities (add_items d its)"
proof (induction d its rule: add_items.induct)
  case (1 d)
  then show ?case by simp
next
  case (2 d product qty rest)
  from "2.prems"(2) have q: "0 \<le> qty" and rest: "nonneg_quantities rest"
    by (simp_all add: nonneg_quantities_def)
  from "2.prems"(1) have "0 \<le> (case map_of d product of None \<Rightarrow> 0 | Some u \<Rightarrow> u)"
    by (auto split: option.splits dest: nonneg_quantities_map_of)
  with q have "0 \<le> (case map_of d product of None \<Rightarrow> 0 | Some u \<Rightarrow> u) + qty" by simp
  with "2.prems"(1) have "nonneg_quantities
      (AList.update product ((case map_of d product of None \<Rightarrow> 0 | Some u \<Rightarrow> u) + qty) d)"
    by (rule nonneg_quantities_update)
  from this rest show ?case
    unfolding add_items.simps by (rule "2.IH")
qed

lemma scan_body_within_bounds:
  assumes "scan_within_bounds st" and "nonneg_quantities (items order)"
  shows "scan_within_bounds (scan_body rc order st)"
proof -
  have d: "distinct (map fst (needed_ingredients rc (items order) []))"
    by (rule needed_ingredients_distinct) simp
  from assms d show ?thesis
    by (auto simp: scan_body_def Let_def scan_within_bounds_def split: prod.splits
        intro: consume_stock_bounded add_items_nonneg)
qed

lemma scan_within_bounds:
  "scan_within_bounds st \<Longrightarrow> list_all (\<lambda>order. nonneg_quantities (items order)) os \<Longrightarrow>
     scan_within_bounds (scan rc os st)"
proof (induction os arbitrary: st)
  case Nil
  then show ?case by simp
next
  case (Cons order rest)
  show ?case
  proof (cases "remaining_customers st \<le> 0")
    case True
    with Cons.prems show ?thesis by (simp add: scan_within_bounds_def)
  next
    case False
    from Cons.prems have "scan_within_bounds (scan_body rc order st)"
      by (simp add: scan_body_within_bounds)
    with Cons.IH [of "scan_body rc order st"] Cons.prems(2) False show ?thesis by simp
  qed
qed

lemma fulfil_within_bounds:
  assumes "within_bounds st"
    and "list_all (\<lambda>order. nonneg_quantities (items order)) (orders batch)"
    and "fulfil cfg st batch = (out, st')"
  shows "within_bounds st' \<and> nonneg_quantities (out_sold_products out)"
proof -
  let ?young = "filter (\<lambda>order. turn st - arrival_turn order < 2) (order_queue st)"
  let ?st1 = "st\<lparr>order_queue := ?young\<rparr>"
  let ?fin = "scan (recipes cfg) (?young @ orders batch) (initial_scan ?st1)"
  from assms(1) have "scan_within_bounds (initial_scan ?st1)"
    by (simp add: scan_within_bounds_def initial_scan_def within_bounds_def nonneg_quantities_def)
  moreover from assms(1,2) have "list_all (\<lambda>order. nonneg_quantities (items order)) (?young @ orders batch)"
    by (auto simp: within_bounds_def list_all_iff)
  ultimately have fin: "scan_within_bounds ?fin" by (rule scan_within_bounds)
  from assms(3) have "st' = ?st1\<lparr>stock_on_hand := scan_stock ?fin, order_queue := next_queue ?fin\<rparr>"
    and "out_sold_products out = sold_products ?fin"
    by (auto simp: fulfil_def Let_def queue_filter_loop_filter)
  with fin assms(1) show ?thesis by (simp add: within_bounds_def scan_within_bounds_def)
qed

lemma orders_loop_nonneg:
  "orders_loop R params probs t n g os dem = Inr (os', dem', g') \<Longrightarrow>
   list_all (\<lambda>(n, profile). nonneg_quantities (profile_items profile)) (order_profiles params) \<Longrightarrow>
   list_all (\<lambda>order. nonneg_quantities (items order)) os \<Longrightarrow>
   list_all (\<lambda>order. nonneg_quantities (items order)) os'"
proof (induction R params probs t n g os dem rule: orders_loop.induct)
  case (1 R params probs turn_idx g os dem)
  then show ?case by simp
next
  case (2 R params probs turn_idx n g os dem)
  show ?case
  proof (cases "probs = []")
    case True
    with "2.prems" show ?thesis by simp
  next
    case False
    with "2.prems"(1) obtain profile_name g1 profile where
      sp: "sample_profile R probs g = Inr (profile_name, g1)" and
      mp: "map_of (order_profiles params) profile_name = Some profile" and
      rest: "orders_loop R params probs turn_idx n g1
               (os @ [\<lparr>items = profile_items profile, arrival_turn = turn_idx\<rparr>])
               (add_items dem (profile_items profile)) = Inr (os', dem', g')"
      by (auto split: sum.splits option.splits)
    from mp "2.prems"(2) have "nonneg_quantities (profile_items profile)"
      by (auto simp: list_all_iff dest!: map_of_SomeD)
    with "2.prems"(3) have "list_all (\<lambda>order. nonneg_quantities (items order))
        (os @ [\<lparr>items = profile_items profile, arrival_turn = turn_idx\<rparr>])" by simp
    from "2.IH" [OF False sp refl mp rest "2.prems"(2) this] show ?thesis .
  qed
qed

lemma sample_orders_nonneg:
  assumes "sample_orders_for_agent R prs params t g = Inr (batch, g')"
    and "list_all (\<lambda>(n, profile). nonneg_quantities (profile_items profile)) (order_profiles params)"
  shows "list_all (\<lambda>order. nonneg_quantities (items order)) (orders batch)"
proof -
  from assms(1) obtain n g1 os dem where
    "orders_loop R params (find_order_mix_segment params t) t (nat n) g1 []
       [(''pintxo'', 0), (''bocadillo'', 0), (''sidra'', 0)] = Inr (os, dem, g')"
    and "orders batch = os"
    by (auto simp: sample_orders_for_agent_def split: sum.splits)
  with orders_loop_nonneg [OF this(1) assms(2)] show ?thesis by simp
qed

lemma revenue_loop_nonneg:
  "revenue_loop prs sold acc = Inr r \<Longrightarrow> prices_nonneg prs \<Longrightarrow> nonneg_quantities sold \<Longrightarrow>
     0 \<le> acc \<Longrightarrow> 0 \<le> r"
proof (induction prs sold acc rule: revenue_loop.induct)
  case (1 prs revenue)
  then show ?case by simp
next
  case (2 prs product units rest revenue)
  from "2.prems"(1) obtain p where p: "prs product = Some p"
    and r: "revenue_loop prs rest (revenue + p * real_of_int units) = Inr r"
    by (auto split: option.splits)
  from "2.prems"(2) p have "0 \<le> p" by (simp add: prices_nonneg_def)
  moreover from "2.prems"(3) have "0 \<le> units" and rest: "nonneg_quantities rest"
    by (simp_all add: nonneg_quantities_def)
  ultimately have "0 \<le> revenue + p * real_of_int units" using "2.prems"(4) by simp
  from "2.IH" [OF p r "2.prems"(2) rest this] show ?case .
qed

lemma simulate_within_bounds:
  assumes "simulate_demand_and_sales R s = Inr (out, s')"
    and "valid_config (config s)" and "within_bounds (state s)"
  shows "within_bounds (state s') \<and> nonneg_quantities (out_sold_products out) \<and> config s' = config s"
proof -
  from assms(1) obtain batch g' st' where
    b: "sample_orders_for_agent R (prices (state s)) (demand (config s)) (turn (state s)) (rng s)
          = Inr (batch, g')" and
    f: "fulfil (config s) (state s) batch = (out, st')" and
    s': "s' = s\<lparr>rng := g', state := st'\<rparr>"
    by (auto simp: simulate_demand_and_sales_def split: sum.splits prod.splits)
  from assms(2) have "list_all (\<lambda>(n, profile). nonneg_quantities (profile_items profile))
      (order_profiles (demand (config s)))" by (simp add: valid_config_def)
  from sample_orders_nonneg [OF b this] fulfil_within_bounds [OF assms(3) _ f] s'
  show ?thesis by simp
qed

lemma settle_within_bounds:
  assumes "settle R t before n ti to c s = Inr (r, s')"
    and "valid_config (config s)" and "within_bounds (state s)"
  shows "within_bounds (state s') \<and> config s' = config s
         \<and> (\<exists>q. tr_state_after r = take_snapshot (state s') q)"
proof -
  from settle_Inr [OF assms(1)] obtain out s4 revenue where
    sim: "simulate_demand_and_sales R s = Inr (out, s4)" and
    rev: "compute_revenue s4 (out_sold_products out) = Inr revenue" and
    s': "s' = remember (summarise out (state (credit revenue s4))) (credit revenue s4)" and
    tr: "tr_state_after r = take_snapshot (state s') (st_queue_end (out_stats out))"
    by blast
  from simulate_within_bounds [OF sim assms(2,3)] have
    b: "within_bounds (state s4)" and sold: "nonneg_quantities (out_sold_products out)"
    and c: "config s4 = config s" by simp_all
  from b have "prices_nonneg (prices (state s4))" by (simp add: within_bounds_def)
  from rev have "revenue_loop (prices (state s4)) (out_sold_products out) 0 = Inr revenue"
    by (simp add: compute_revenue_def)
  from revenue_loop_nonneg [OF this \<open>prices_nonneg (prices (state s4))\<close> sold]
  have "0 \<le> revenue" by simp
  with b s' c tr show ?thesis
    by (auto simp: remember_def credit_def within_bounds_def)
qed

lemma invoke_config: "invoke i s = Inr (res, s') \<Longrightarrow> config s' = config s"
  by (auto simp: invoke_def get_status_def get_prices_def set_prices_def place_order_def
      assign_workers_def end_turn_def Let_def set_worker_assignments_def count_call_def
      split: tool_call.splits option.splits sum.splits if_splits)

lemma run_invocations_config: "run_invocations is s = Inr s' \<Longrightarrow> config s' = config s"
  by (induction "is" arbitrary: s) (auto split: sum.splits dest: invoke_config)

lemma play_turn_config: "play_turn a s = Inr (acts, s') \<Longrightarrow> config s' = config s"
  by (auto simp: play_turn_def split: sum.splits dest: run_invocations_config)

lemma begin_turn_config: "config (begin_turn t s) = config s"
  by (simp add: begin_turn_def receive_deliveries_def update_worker_trips_def split: prod.splits)

lemma run_turn_within_bounds:
  assumes "run_turn R t a s = Inr (r, s')"
    and "valid_config (config s)" and "within_bounds (state s)"
  shows "within_bounds (state s') \<and> config s' = config s
         \<and> (\<exists>q. tr_state_after r = take_snapshot (state s') q)"
proof -
  from assms(1) obtain acts s3 b n ti to c where
    p: "play_turn a (begin_turn t s) = Inr (acts, s3)" and
    q: "settle R t b n ti to c s3 = Inr (r, s')"
    by (auto simp: run_turn_def Let_def split: sum.splits if_splits)
  from assms(3) have "within_bounds (state (begin_turn t s))" by (rule begin_turn_within_bounds)
  with p have b3: "within_bounds (state s3)" by (rule play_turn_within_bounds)
  from play_turn_config [OF p] have c3: "config s3 = config s" by (simp add: begin_turn_config)
  with assms(2) have "valid_config (config s3)" by simp
  from settle_within_bounds [OF q this b3] c3 show ?thesis by simp
qed

lemma take_snapshot_within_bounds:
  "within_bounds st \<Longrightarrow> snapshot_within_bounds (take_snapshot st q)"
  by (simp add: within_bounds_def snapshot_within_bounds_def take_snapshot_def)

lemma run_turns_within_bounds:
  "run_turns R agent ts s written = (written', res) \<Longrightarrow>
   valid_config (config s) \<Longrightarrow> within_bounds (state s) \<Longrightarrow>
   list_all (\<lambda>r. snapshot_within_bounds (tr_state_after r)) written \<Longrightarrow>
   list_all (\<lambda>r. snapshot_within_bounds (tr_state_after r)) written'"
proof (induction ts arbitrary: s written)
  case Nil
  then show ?case by simp
next
  case (Cons t ts)
  show ?case
  proof (cases "run_turn R t (agent t) s")
    case (Inl e)
    with Cons.prems show ?thesis by simp
  next
    case (Inr rs)
    obtain r s' where rs: "rs = (r, s')" by (cases rs)
    with Inr have rt: "run_turn R t (agent t) s = Inr (r, s')" by simp
    from run_turn_within_bounds [OF rt Cons.prems(2,3)] obtain q where
      b: "within_bounds (state s')" and c: "config s' = config s"
      and a: "tr_state_after r = take_snapshot (state s') q" by blast
    from b a have "snapshot_within_bounds (tr_state_after r)"
      by (simp add: take_snapshot_within_bounds)
    with Cons.prems(4) have w: "list_all (\<lambda>r. snapshot_within_bounds (tr_state_after r)) (written @ [r])"
      by simp
    from Cons.prems(1) rt have "run_turns R agent ts s' (written @ [r]) = (written', res)" by simp
    from Cons.IH [OF this _ b w] c Cons.prems(2) show ?thesis by simp
  qed
qed

lemma reset_within_bounds: "valid_config (config s) \<Longrightarrow> within_bounds (state (reset s))"
  using init_state_within_bounds [of "config s"]
  by (simp add: reset_def within_bounds_def)

text \<open>
  C2, amended. For every valid configuration (initial cash, stock and prices not
  negative, no negative quantity in an order profile) and whatever the decision-maker
  does, after every completed step the cash balance and every price are greater than or
  equal to zero and every quantity in \<open>stock_on_hand\<close> is greater than or equal to
  \<open>-1e-9\<close>, the tolerance of the stock test. The state after a step is the one the trace
  record of the step reports.
\<close>

theorem bounds_after_every_step:
  assumes "valid_config (config s)"
  shows "\<forall>r \<in> set (fst (run_episode R agent s)).
           0 \<le> snap_cash (tr_state_after r)
           \<and> (\<forall>p v. snap_prices (tr_state_after r) p = Some v \<longrightarrow> 0 \<le> v)
           \<and> (\<forall>ing v. snap_stock (tr_state_after r) ing = Some v \<longrightarrow> - (1 / 10 ^ 9) \<le> v)"
proof -
  obtain written res where
    rt: "run_turns R agent (map int [0 ..< nat (num_turns (config (reset s)))]) (reset s) []
           = (written, res)"
    by (cases "run_turns R agent (map int [0 ..< nat (num_turns (config (reset s)))]) (reset s) []")
  have c: "config (reset s) = config s" by (simp add: reset_def)
  from assms have v: "valid_config (config (reset s))" by (simp add: c)
  from assms have b: "within_bounds (state (reset s))" by (rule reset_within_bounds)
  from run_turns_within_bounds [OF rt v b]
  have "list_all (\<lambda>r. snapshot_within_bounds (tr_state_after r)) written" by simp
  moreover from rt have "fst (run_episode R agent s) = written"
    by (cases res) (simp_all add: run_episode_def)
  ultimately show ?thesis
    by (simp add: list_all_iff snapshot_within_bounds_def prices_nonneg_def stock_bounded_def)
qed

section \<open>The example episodes, evaluated\<close>

lemma example_segment: "find_order_mix_segment example_demand 0 = [(''solo'', 1)]"
  by (simp add: find_order_mix_segment_def example_demand_def)

lemma example_profiles:
  "order_profiles example_demand = [(''solo'', \<lparr>name = ''solo'', profile_items = [(''pintxo'', 1)]\<rparr>)]"
  by (simp add: example_demand_def)

lemma example_ticket:
  "prs ''pintxo'' = Some 3 \<Longrightarrow> compute_expected_ticket prs example_demand 0 = Inr 3"
  by (simp add: compute_expected_ticket_def example_segment example_profiles)

lemma example_customers:
  assumes "prs ''pintxo'' = Some 3"
  shows "sample_customers_for_agent example_rng prs example_demand 0 g = Inr (1, g)"
proof -
  have ref: "map_of (price_ref example_demand) ''pintxo'' = Some 3"
    by (simp add: example_demand_def)
  have curve: "py_index (customers_curve example_demand) 0 = Inr 4"
    by (simp add: py_index_def example_demand_def)
  have rest: "elasticity_customers example_demand = 0" "noise_std example_demand = 0"
    by (simp_all add: example_demand_def)
  have round: "py_round 1 = 1" by (simp add: py_round_def)
  note t1 = example_ticket [of prs, OF assms]
  note t2 = example_ticket [of "map_of (price_ref example_demand)", OF ref]
  show ?thesis
    by (simp add: sample_customers_for_agent_def t1 t2 curve rest round)
qed

lemma example_profile: "sample_profile example_rng [(''solo'', 1)] g = Inr (''solo'', g)"
  by (simp add: sample_profile_def example_rng_def)

lemma example_orders:
  assumes "prs ''pintxo'' = Some 3"
  shows "sample_orders_for_agent example_rng prs example_demand 0 g =
           Inr (\<lparr>orders = [\<lparr>items = [(''pintxo'', 1)], arrival_turn = 0\<rparr>], new_customers = 1,
                 demand_products = [(''pintxo'', 1), (''bocadillo'', 0), (''sidra'', 0)]\<rparr>, g)"
proof -
  have one: "nat 1 = Suc 0" by simp
  note c = example_customers [of prs, OF assms]
  show ?thesis
    by (simp add: sample_orders_for_agent_def c example_segment
        one example_profile example_profiles)
qed

lemma settle_returns:
  assumes "sample_orders_for_agent R (prices (state s)) (demand (config s)) (turn (state s)) (rng s)
             = Inr (batch, g')"
    and "fulfil (config s) (state s) batch = (out, st')"
    and "revenue_loop (prices st') (out_sold_products out) 0 = Inr revenue"
    and "by_product_loop (prices st') (out_sold_products out) [] = Inr by_product"
  shows "\<exists>r s'. settle R t before n ti to c s = Inr (r, s')
           \<and> snap_stock (tr_state_after r) = stock_on_hand st'
           \<and> snap_cash (tr_state_after r) = cash st' + revenue
           \<and> snap_queue (tr_state_after r) = st_queue_end (out_stats out)
           \<and> tr_orders_served r = out_orders_served out
           \<and> rng s' = g' \<and> config s' = config s"
  using assms
  by (simp add: settle_def simulate_demand_and_sales_def compute_revenue_def credit_def
      remember_def take_snapshot_def)

lemma tolerance_config_fields:
  "demand tolerance_config = example_demand"
  "num_turns tolerance_config = 1"
  "recipes tolerance_config =
     [(''pintxo'', [(''txistorra'', 3333333334 / 10 ^ 10)]),
      (''bocadillo'', [(''txistorra'', 1), (''pan'', 1 / 2)]),
      (''sidra'', [(''sidra'', 1)])]"
  by (simp_all add: tolerance_config_def example_config_def)

lemma tolerance_capacities:
  "compute_worker_capacities
     [\<lparr>employee_id = 1, task = ''atender_clientes''\<rparr>, \<lparr>employee_id = 2, task = ''freir_txistorra''\<rparr>]
   = \<lparr>customers_per_turn = 15, txistorra_strips_per_turn = 1, sidra_bottles_per_turn = 0\<rparr>"
  by (simp add: compute_worker_capacities_def count_tasks_def zero_counts_def count_of_def
      TURN_MINUTES_def)

lemma tolerance_state:
  "state tolerance_sim =
     \<lparr>turn = 0, cash = 100,
      stock_on_hand = map_of [(''txistorra'', 3333333333 / 10 ^ 10), (''pan'', 10), (''sidra'', 10)],
      inbound_deliveries = [],
      prices = map_of [(''pintxo'', 3), (''bocadillo'', 5), (''sidra'', 2)],
      last_turn = None, order_queue = [],
      worker_assignments =
        [\<lparr>employee_id = 1, task = ''atender_clientes''\<rparr>, \<lparr>employee_id = 2, task = ''freir_txistorra''\<rparr>],
      worker_capacities =
        \<lparr>customers_per_turn = 15, txistorra_strips_per_turn = 1, sidra_bottles_per_turn = 0\<rparr>,
      workers_on_trip = Map.empty\<rparr>"
  by (simp add: tolerance_sim_def Simulator_def init_state_def Let_def tolerance_capacities
      tolerance_config_def example_config_def)

lemma tolerance_fulfil:
  "fulfil tolerance_config (state tolerance_sim)
     \<lparr>orders = [\<lparr>items = [(''pintxo'', 1)], arrival_turn = 0\<rparr>], new_customers = 1,
      demand_products = [(''pintxo'', 1), (''bocadillo'', 0), (''sidra'', 0)]\<rparr> = (out, st')
   \<Longrightarrow> stock_on_hand st' ''txistorra'' = Some (- (1 / 10 ^ 10))
       \<and> out_sold_products out = [(''pintxo'', 1), (''bocadillo'', 0), (''sidra'', 0)]
       \<and> prices st' = map_of [(''pintxo'', 3), (''bocadillo'', 5), (''sidra'', 2)]
       \<and> cash st' = 100"
  by (auto simp: fulfil_def tolerance_state tolerance_config_fields initial_scan_def scan_body_def
      can_fulfill_def stock_get_def recipe_of_def per_unit_of_def Let_def)

lemma run_turn_returns:
  assumes "play_turn a (begin_turn t s) = Inr (acts, s3)" and "ends_with_end_turn acts"
    and "sample_orders_for_agent R (prices (state s3)) (demand (config s3)) (turn (state s3)) (rng s3)
             = Inr (batch, g')"
    and "fulfil (config s3) (state s3) batch = (out, st')"
    and "revenue_loop (prices st') (out_sold_products out) 0 = Inr revenue"
    and "by_product_loop (prices st') (out_sold_products out) [] = Inr by_product"
  shows "\<exists>r s'. run_turn R t a s = Inr (r, s')
           \<and> snap_stock (tr_state_after r) = stock_on_hand st'
           \<and> snap_cash (tr_state_after r) = cash st' + revenue
           \<and> snap_queue (tr_state_after r) = st_queue_end (out_stats out)
           \<and> tr_orders_served r = out_orders_served out
           \<and> rng s' = g' \<and> config s' = config s3"
  using assms(1,2) settle_returns [OF assms(3-6)]
  by (simp add: run_turn_def Let_def)

lemma example_agent_play:
  "\<exists>s3. play_turn (example_agent t) s = Inr ([''end_turn''], s3)
     \<and> state s3 = state s \<and> config s3 = config s \<and> rng s3 = rng s"
  by (simp add: play_turn_def example_agent_def invoke_def end_turn_def count_call_def
      record_tool_call_def Let_def)

lemma tolerance_begin: "begin_turn 0 tolerance_sim = tolerance_sim"
  by (simp add: begin_turn_def update_worker_trips_def receive_deliveries_def tolerance_sim_def
      Simulator_def init_state_def Let_def)

lemma tolerance_reset: "reset tolerance_sim = tolerance_sim"
  by (simp add: reset_def tolerance_sim_def Simulator_def init_state_def Let_def)

lemma tolerance_turn:
  "\<exists>r s'. run_turn example_rng 0 (example_agent 0) tolerance_sim = Inr (r, s')
     \<and> snap_stock (tr_state_after r) ''txistorra'' = Some (- (1 / 10 ^ 10))
     \<and> snap_cash (tr_state_after r) = 103"
proof -
  obtain s3 where p: "play_turn (example_agent 0) (begin_turn 0 tolerance_sim) = Inr ([''end_turn''], s3)"
    and s3: "state s3 = state tolerance_sim" "config s3 = config tolerance_sim" "rng s3 = rng tolerance_sim"
    using example_agent_play [of 0 tolerance_sim] by (auto simp: tolerance_begin)
  have e: "ends_with_end_turn [''end_turn'']" by (simp add: ends_with_end_turn_def)
  have c: "config tolerance_sim = tolerance_config" by (simp add: tolerance_sim_def Simulator_def)
  let ?batch = "\<lparr>orders = [\<lparr>items = [(''pintxo'', 1)], arrival_turn = 0\<rparr>], new_customers = 1,
      demand_products = [(''pintxo'', 1), (''bocadillo'', 0), (''sidra'', 0)]\<rparr>"
  have b: "sample_orders_for_agent example_rng (prices (state s3)) (demand (config s3))
      (turn (state s3)) (rng s3) = Inr (?batch, rng s3)"
    by (simp add: s3 c tolerance_config_fields tolerance_state example_orders)
  obtain out st' where f: "fulfil (config s3) (state s3) ?batch = (out, st')"
    by (cases "fulfil (config s3) (state s3) ?batch")
  then have f': "fulfil tolerance_config (state tolerance_sim) ?batch = (out, st')"
    by (simp add: s3 c)
  note v = tolerance_fulfil [OF f']
  from v have rev: "revenue_loop (prices st') (out_sold_products out) 0 = Inr 3" by simp
  from v have bp: "by_product_loop (prices st') (out_sold_products out) [] =
      Inr [(''pintxo'', 3), (''bocadillo'', 0), (''sidra'', 0)]" by simp
  from run_turn_returns [OF p e b f rev bp] v show ?thesis by auto
qed

lemma tolerance_episode:
  "\<exists>r. fst (run_episode example_rng example_agent tolerance_sim) = [r]
     \<and> snap_stock (tr_state_after r) ''txistorra'' = Some (- (1 / 10 ^ 10))
     \<and> snap_cash (tr_state_after r) = 103"
proof -
  obtain r s' where "run_turn example_rng 0 (example_agent 0) tolerance_sim = Inr (r, s')"
    and "snap_stock (tr_state_after r) ''txistorra'' = Some (- (1 / 10 ^ 10))"
    and "snap_cash (tr_state_after r) = 103"
    using tolerance_turn by blast
  moreover have "map int [0 ..< nat (num_turns (config tolerance_sim))] = [0]"
    by (simp add: tolerance_sim_def Simulator_def tolerance_config_fields)
  ultimately show ?thesis
    by (simp add: run_episode_def tolerance_reset)
qed

lemma tolerance_valid: "valid_config (config tolerance_sim)"
  by (simp add: valid_config_def tolerance_sim_def Simulator_def tolerance_config_def
      example_config_def example_demand_def nonneg_quantities_def)

text \<open>
  C2, as stated, fails for the stock: the stock test lets an order through when its
  requirement exceeds the stock by at most \<open>1e-9\<close>. In the one-step episode of the
  configuration above, which is valid, a pintxo that takes 0.3333333334 txistorra is
  served from a stock of 0.3333333333, and the stock after the step is \<open>-1e-10\<close>.
\<close>

theorem stock_negative_counterexample:
  "valid_config (config tolerance_sim)
   \<and> map (\<lambda>r. snap_stock (tr_state_after r) ''txistorra'')
       (fst (run_episode example_rng example_agent tolerance_sim)) = [Some (- (1 / 10 ^ 10))]"
  using tolerance_episode tolerance_valid by auto

theorem bounds_after_every_step_witness:
  "valid_config (config tolerance_sim)
   \<and> (\<exists>r. r \<in> set (fst (run_episode example_rng example_agent tolerance_sim))
          \<and> snap_stock (tr_state_after r) ''txistorra'' = Some (- (1 / 10 ^ 10))
          \<and> - (1 / 10 ^ 9) \<le> (- (1 / 10 ^ 10) :: real)
          \<and> 0 \<le> snap_cash (tr_state_after r))"
proof -
  obtain r where r: "fst (run_episode example_rng example_agent tolerance_sim) = [r]"
    "snap_stock (tr_state_after r) ''txistorra'' = Some (- (1 / 10 ^ 10))"
    using tolerance_episode by blast
  from r(1) have m: "r \<in> set (fst (run_episode example_rng example_agent tolerance_sim))" by simp
  from bounds_after_every_step [OF tolerance_valid, of example_rng example_agent] m r(2)
  have "- (1 / 10 ^ 9) \<le> (- (1 / 10 ^ 10) :: real) \<and> 0 \<le> snap_cash (tr_state_after r)"
    by blast
  with tolerance_valid m r(2) show ?thesis by blast
qed

section \<open>The end-of-turn contract\<close>

lemma ticket_profile_returns:
  "priced prs its \<Longrightarrow> \<exists>v. ticket_profile prs its acc = Inr v"
  by (induction prs its acc rule: ticket_profile.induct) (auto simp: priced_def)

lemma expected_loop_returns:
  "list_all (\<lambda>(n, p). case map_of profiles n of None \<Rightarrow> False
                       | Some profile \<Rightarrow> priced prs (profile_items profile)) probs \<Longrightarrow>
     \<exists>v. expected_loop prs profiles probs acc = Inr v"
proof (induction prs profiles probs acc rule: expected_loop.induct)
  case (1 prs profiles expected)
  show ?case by simp
next
  case (2 prs profiles profile_name prob rest expected)
  from "2.prems" obtain profile where p: "map_of profiles profile_name = Some profile"
    and pr: "priced prs (profile_items profile)"
    and rest: "list_all (\<lambda>(n, p). case map_of profiles n of None \<Rightarrow> False
                       | Some profile \<Rightarrow> priced prs (profile_items profile)) rest"
    by (auto split: option.splits)
  from ticket_profile_returns [OF pr, of 0] obtain v where
    t: "ticket_profile prs (profile_items profile) 0 = Inr v" by blast
  from "2.IH" [OF p t rest] p t show ?case by simp
qed

lemma price_mean_loop_returns:
  "list_all (\<lambda>p. prs p \<noteq> None) ps \<Longrightarrow> \<exists>v. price_mean_loop prs ps acc = Inr v"
  by (induction prs ps acc rule: price_mean_loop.induct) auto

lemma compute_expected_ticket_returns:
  assumes "find_order_mix_segment params t = [] \<longrightarrow>
             list_all (\<lambda>p. prs p \<noteq> None) [''pintxo'', ''bocadillo'', ''sidra'']"
    and "list_all (\<lambda>(n, p). case map_of (order_profiles params) n of None \<Rightarrow> False
                       | Some profile \<Rightarrow> priced prs (profile_items profile))
           (find_order_mix_segment params t)"
  shows "\<exists>v. compute_expected_ticket prs params t = Inr v"
proof (cases "find_order_mix_segment params t = []")
  case True
  with assms(1) price_mean_loop_returns [of prs "[''pintxo'', ''bocadillo'', ''sidra'']" 0]
  show ?thesis by (simp add: compute_expected_ticket_def)
next
  case False
  with expected_loop_returns [OF assms(2), of 0] show ?thesis
    by (simp add: compute_expected_ticket_def)
qed

lemma sample_customers_returns:
  assumes "demand_ready R prs params t"
  shows "\<exists>n g'. sample_customers_for_agent R prs params t g = Inr (n, g')"
proof -
  let ?probs = "find_order_mix_segment params t"
  from assms have idx: "0 \<le> t \<and> t < int (length (customers_curve params))"
    and e: "?probs = [] \<longrightarrow> list_all (\<lambda>p. prs p \<noteq> None \<and> map_of (price_ref params) p \<noteq> None)
                 [''pintxo'', ''bocadillo'', ''sidra'']"
    and l: "list_all (\<lambda>(n, p). case map_of (order_profiles params) n of
                                  None \<Rightarrow> False
                                | Some profile \<Rightarrow>
                                    priced prs (profile_items profile)
                                    \<and> priced (map_of (price_ref params)) (profile_items profile))
              ?probs"
    by (simp_all add: demand_ready_def Let_def)
  from idx obtain m where m: "py_index (customers_curve params) t = Inr m"
    by (auto simp: py_index_def)
  from l have l1: "list_all (\<lambda>(n, p). case map_of (order_profiles params) n of None \<Rightarrow> False
                       | Some profile \<Rightarrow> priced prs (profile_items profile)) ?probs"
    and l2: "list_all (\<lambda>(n, p). case map_of (order_profiles params) n of None \<Rightarrow> False
                       | Some profile \<Rightarrow> priced (map_of (price_ref params)) (profile_items profile)) ?probs"
    by (auto simp: list_all_iff split: option.splits)
  from e have e1: "?probs = [] \<longrightarrow> list_all (\<lambda>p. prs p \<noteq> None) [''pintxo'', ''bocadillo'', ''sidra'']"
    and e2: "?probs = [] \<longrightarrow> list_all (\<lambda>p. map_of (price_ref params) p \<noteq> None)
                 [''pintxo'', ''bocadillo'', ''sidra'']"
    by simp_all
  from compute_expected_ticket_returns [OF e1 l1] obtain ta where
    ta: "compute_expected_ticket prs params t = Inr ta" by blast
  from compute_expected_ticket_returns [OF e2 l2] obtain tc where
    tc: "compute_expected_ticket (map_of (price_ref params)) params t = Inr tc" by blast
  show ?thesis
    by (simp add: sample_customers_for_agent_def m ta tc Let_def split: prod.splits)
qed

lemma sample_profile_returns:
  assumes "probs \<noteq> []" and "\<forall>ws g. fst (choice R (length probs) ws g) < length probs"
  shows "\<exists>n g'. sample_profile R probs g = Inr (n, g') \<and> n \<in> fst ` set probs"
proof -
  let ?ws = "(if sum_list (map snd probs) \<le> 0
              then map (\<lambda>_. 1 / real (length (map snd probs))) (map snd probs)
              else map (\<lambda>p. p / sum_list (map snd probs)) (map snd probs))"
  obtain idx g' where c: "choice R (length (map fst probs)) ?ws g = (idx, g')"
    by (cases "choice R (length (map fst probs)) ?ws g")
  with assms(2) have "idx < length probs" by (metis fst_conv length_map)
  with c show ?thesis
    by (auto simp: sample_profile_def Let_def simp del: map_map)
qed

lemma orders_loop_returns:
  assumes "probs \<noteq> [] \<longrightarrow> (\<forall>ws g. fst (choice R (length probs) ws g) < length probs)"
    and "list_all (\<lambda>(n, p). case map_of (order_profiles params) n of None \<Rightarrow> False
                       | Some profile \<Rightarrow> priced prs (profile_items profile)) probs"
    and "list_all (\<lambda>order. priced prs (items order)) os"
  shows "\<exists>os' dem' g'. orders_loop R params probs t n g os dem = Inr (os', dem', g')
           \<and> list_all (\<lambda>order. priced prs (items order)) os'"
  using assms(3)
proof (induction n arbitrary: g os dem)
  case 0
  then show ?case by simp
next
  case (Suc n)
  show ?case
  proof (cases "probs = []")
    case True
    with Suc.prems show ?thesis by simp
  next
    case False
    with assms(1) have "\<forall>ws g. fst (choice R (length probs) ws g) < length probs" by simp
    from sample_profile_returns [OF False this, of g] obtain pn g1 where
      sp: "sample_profile R probs g = Inr (pn, g1)" and mem: "pn \<in> fst ` set probs" by blast
    from mem assms(2) obtain profile where
      mp: "map_of (order_profiles params) pn = Some profile"
      and pr: "priced prs (profile_items profile)"
      by (auto simp: list_all_iff split: option.splits)
    from pr Suc.prems have "list_all (\<lambda>order. priced prs (items order))
        (os @ [\<lparr>items = profile_items profile, arrival_turn = t\<rparr>])" by simp
    from Suc.IH [OF this, of g1 "add_items dem (profile_items profile)"] False sp mp
    show ?thesis by simp
  qed
qed

lemma sample_orders_returns:
  assumes "demand_ready R prs params t"
  shows "\<exists>batch g'. sample_orders_for_agent R prs params t g = Inr (batch, g')
           \<and> list_all (\<lambda>order. priced prs (items order)) (orders batch)"
proof -
  let ?probs = "find_order_mix_segment params t"
  from sample_customers_returns [OF assms, of g] obtain n g1 where
    c: "sample_customers_for_agent R prs params t g = Inr (n, g1)" by blast
  from assms have r: "?probs \<noteq> [] \<longrightarrow> (\<forall>ws g. fst (choice R (length ?probs) ws g) < length ?probs)"
    and "list_all (\<lambda>(n, p). case map_of (order_profiles params) n of
                                  None \<Rightarrow> False
                                | Some profile \<Rightarrow>
                                    priced prs (profile_items profile)
                                    \<and> priced (map_of (price_ref params)) (profile_items profile))
              ?probs"
    by (simp_all add: demand_ready_def Let_def)
  then have l: "list_all (\<lambda>(n, p). case map_of (order_profiles params) n of None \<Rightarrow> False
                       | Some profile \<Rightarrow> priced prs (profile_items profile)) ?probs"
    by (auto simp: list_all_iff split: option.splits)
  from orders_loop_returns [OF r l, of "[]" t "nat n" g1
      "[(''pintxo'', 0), (''bocadillo'', 0), (''sidra'', 0)]"]
  obtain os' dem' g' where
    "orders_loop R params ?probs t (nat n) g1 [] [(''pintxo'', 0), (''bocadillo'', 0), (''sidra'', 0)]
       = Inr (os', dem', g')"
    and "list_all (\<lambda>order. priced prs (items order)) os'"
    by auto
  with c show ?thesis by (simp add: sample_orders_for_agent_def)
qed

lemma priced_update: "priced prs d \<Longrightarrow> prs k \<noteq> None \<Longrightarrow> priced prs (AList.update k v d)"
  by (induction d) (auto simp: priced_def)

lemma add_items_priced: "priced prs d \<Longrightarrow> priced prs its \<Longrightarrow> priced prs (add_items d its)"
proof (induction d its rule: add_items.induct)
  case (1 d)
  then show ?case by simp
next
  case (2 d product qty rest)
  from "2.prems"(2) have p: "prs product \<noteq> None" and rest: "priced prs rest"
    by (simp_all add: priced_def)
  from "2.prems"(1) p have "priced prs
      (AList.update product ((case map_of d product of None \<Rightarrow> 0 | Some u \<Rightarrow> u) + qty) d)"
    by (rule priced_update)
  from this rest show ?case unfolding add_items.simps by (rule "2.IH")
qed

lemma scan_body_priced:
  "priced prs (sold_products st) \<Longrightarrow> priced prs (items order) \<Longrightarrow>
     priced prs (sold_products (scan_body rc order st))"
  by (auto simp: scan_body_def Let_def split: prod.splits intro: add_items_priced)

lemma scan_priced:
  "priced prs (sold_products st) \<Longrightarrow> list_all (\<lambda>order. priced prs (items order)) os \<Longrightarrow>
     priced prs (sold_products (scan rc os st))"
proof (induction os arbitrary: st)
  case Nil
  then show ?case by simp
next
  case (Cons order rest)
  show ?case
  proof (cases "remaining_customers st \<le> 0")
    case True
    with Cons.prems show ?thesis by simp
  next
    case False
    from Cons.prems have "priced prs (sold_products (scan_body rc order st))"
      by (simp add: scan_body_priced)
    with Cons.IH [of "scan_body rc order st"] Cons.prems(2) False show ?thesis by simp
  qed
qed

lemma fulfil_priced:
  assumes "fulfil cfg st batch = (out, st')"
    and "list_all (\<lambda>p. prices st p \<noteq> None) [''pintxo'', ''bocadillo'', ''sidra'']"
    and "list_all (\<lambda>order. priced (prices st) (items order)) (order_queue st)"
    and "list_all (\<lambda>order. priced (prices st) (items order)) (orders batch)"
  shows "priced (prices st') (out_sold_products out)"
proof -
  let ?young = "filter (\<lambda>order. turn st - arrival_turn order < 2) (order_queue st)"
  let ?st1 = "st\<lparr>order_queue := ?young\<rparr>"
  let ?fin = "scan (recipes cfg) (?young @ orders batch) (initial_scan ?st1)"
  from assms(2) have "priced (prices st) (sold_products (initial_scan ?st1))"
    by (simp add: initial_scan_def priced_def)
  moreover from assms(3,4) have "list_all (\<lambda>order. priced (prices st) (items order)) (?young @ orders batch)"
    by (auto simp: list_all_iff)
  ultimately have "priced (prices st) (sold_products ?fin)" by (rule scan_priced)
  moreover from assms(1) have "prices st' = prices st" and "out_sold_products out = sold_products ?fin"
    by (auto simp: fulfil_def Let_def queue_filter_loop_filter)
  ultimately show ?thesis by simp
qed

lemma revenue_loop_returns: "priced prs sold \<Longrightarrow> \<exists>v. revenue_loop prs sold acc = Inr v"
  by (induction prs sold acc rule: revenue_loop.induct) (auto simp: priced_def)

lemma by_product_loop_returns: "priced prs sold \<Longrightarrow> \<exists>v. by_product_loop prs sold acc = Inr v"
  by (induction prs sold acc rule: by_product_loop.induct) (auto simp: priced_def)

lemma settle_returns_if_ready:
  assumes "settlement_ready R s"
  shows "\<exists>r s'. settle R t before n ti to c s = Inr (r, s')"
proof -
  from assms have d: "demand_ready R (prices (state s)) (demand (config s)) (turn (state s))"
    and three: "list_all (\<lambda>p. prices (state s) p \<noteq> None) [''pintxo'', ''bocadillo'', ''sidra'']"
    and queue: "list_all (\<lambda>order. priced (prices (state s)) (items order)) (order_queue (state s))"
    by (simp_all add: settlement_ready_def)
  from sample_orders_returns [OF d, of "rng s"] obtain batch g' where
    b: "sample_orders_for_agent R (prices (state s)) (demand (config s)) (turn (state s)) (rng s)
          = Inr (batch, g')"
    and new: "list_all (\<lambda>order. priced (prices (state s)) (items order)) (orders batch)"
    by blast
  obtain out st' where f: "fulfil (config s) (state s) batch = (out, st')"
    by (cases "fulfil (config s) (state s) batch")
  from fulfil_priced [OF f three queue new] have p: "priced (prices st') (out_sold_products out)" .
  from revenue_loop_returns [OF p, of 0] obtain revenue where
    rev: "revenue_loop (prices st') (out_sold_products out) 0 = Inr revenue" by blast
  from by_product_loop_returns [OF p, of "[]"] obtain bp where
    bp: "by_product_loop (prices st') (out_sold_products out) [] = Inr bp" by blast
  from settle_returns [OF b f rev bp, of t before n ti to c] show ?thesis by blast
qed

lemma begin_turn_turn: "turn (state (begin_turn t s)) = t"
  by (simp add: begin_turn_def receive_deliveries_def update_worker_trips_def split: prod.splits)

lemma run_turn_without_curve:
  assumes "play_turn a (begin_turn t s) = Inr (acts, s3)" and "ends_with_end_turn acts"
    and "py_index (customers_curve (demand (config s3))) (turn (state s3)) = Inl IndexError"
  shows "run_turn R t a s = Inl IndexError"
  using assms
  by (simp add: run_turn_def Let_def settle_def simulate_demand_and_sales_def
      sample_orders_for_agent_def sample_customers_for_agent_def)

lemma run_turns_stop:
  "run_turn R t (agent t) s = Inl e \<Longrightarrow> run_turns R agent (t # ts) s written = (written, Inl e)"
  by simp

text \<open>
  C7, amended. In a step whose decision phase returns (no operation raises): when the
  returned action list is empty or its last action is not \<open>end_turn\<close>, the step, and with
  it the episode, ends with the ValueError of the contract check; when the list ends
  with \<open>end_turn\<close> and the configuration and state are complete enough for the demand
  and settlement phase (\<open>settlement_ready\<close>), the step goes through demand, fulfilment and
  settlement without error and yields its trace record. So for such a step the episode
  ends with an error exactly when \<open>end_turn\<close> is not the last recorded action.
\<close>

theorem end_turn_contract:
  assumes "play_turn a (begin_turn t s) = Inr (acts, s3)"
  shows "(\<not> ends_with_end_turn acts \<longrightarrow> run_turn R t a s = Inl ValueError)
         \<and> (ends_with_end_turn acts \<and> settlement_ready R s3 \<longrightarrow>
              (\<exists>r s'. run_turn R t a s = Inr (r, s')))
         \<and> (settlement_ready R s3 \<longrightarrow>
              ((\<exists>e. run_turn R t a s = Inl e) \<longleftrightarrow> \<not> ends_with_end_turn acts))"
proof -
  have a: "\<not> ends_with_end_turn acts \<Longrightarrow> run_turn R t a s = Inl ValueError"
    using assms by (simp add: run_turn_def Let_def)
  have b: "\<exists>r s'. run_turn R t a s = Inr (r, s')"
    if "ends_with_end_turn acts" and "settlement_ready R s3"
  proof -
    from settle_returns_if_ready [OF that(2)] that(1) assms show ?thesis
      by (simp add: run_turn_def Let_def)
  qed
  from a b show ?thesis by auto
qed

lemma no_curve_fields:
  "config no_curve_sim = no_curve_config"
  "customers_curve (demand no_curve_config) = []"
  "num_turns no_curve_config = 1"
  by (simp_all add: no_curve_sim_def no_curve_config_def Simulator_def example_config_def)

lemma no_curve_turn:
  "run_turn example_rng 0 (example_agent 0) no_curve_sim = Inl IndexError"
proof -
  obtain s3 where p: "play_turn (example_agent 0) (begin_turn 0 no_curve_sim) = Inr ([''end_turn''], s3)"
    and s3: "state s3 = state (begin_turn 0 no_curve_sim)" "config s3 = config (begin_turn 0 no_curve_sim)"
    using example_agent_play [of 0 "begin_turn 0 no_curve_sim"] by auto
  have e: "ends_with_end_turn [''end_turn'']" by (simp add: ends_with_end_turn_def)
  have "py_index (customers_curve (demand (config s3))) (turn (state s3)) = Inl IndexError"
    by (simp add: s3 begin_turn_config begin_turn_turn no_curve_fields py_index_def)
  with p e show ?thesis by (rule run_turn_without_curve)
qed

text \<open>
  C7, as stated, fails: an episode can end with an error although the decision-maker
  ended its turn. With no market-customer figure for the step, \<open>customers_curve[turn_idx]\<close>
  raises IndexError in the demand phase.
\<close>

theorem end_turn_contract_counterexample:
  "ends_with_end_turn (actions (example_agent 0))
   \<and> run_episode example_rng example_agent no_curve_sim = ([], Inl IndexError)"
proof -
  have "map int [0 ..< nat (num_turns (config (reset no_curve_sim)))] = [0]"
    by (simp add: reset_def no_curve_fields)
  moreover have "reset no_curve_sim = no_curve_sim"
    by (simp add: reset_def no_curve_sim_def Simulator_def init_state_def Let_def)
  moreover have "ends_with_end_turn (actions (example_agent 0))"
    by (simp add: example_agent_def ends_with_end_turn_def)
  ultimately show ?thesis
    by (simp add: run_episode_def no_curve_turn)
qed

lemma idle_agent_play:
  "\<exists>s3. play_turn (idle_agent t) s = Inr ([''get_status''], s3)"
  by (simp add: play_turn_def idle_agent_def invoke_def get_status_def Let_def)

lemma tolerance_ready:
  assumes "state s3 = state tolerance_sim" and "config s3 = config tolerance_sim"
  shows "settlement_ready example_rng s3"
proof -
  have c: "config tolerance_sim = tolerance_config"
    by (simp add: tolerance_sim_def Simulator_def)
  have d: "customers_curve example_demand = [4]"
      "price_ref example_demand = [(''pintxo'', 3), (''bocadillo'', 5), (''sidra'', 2)]"
    by (simp_all add: example_demand_def)
  show ?thesis
    by (simp add: settlement_ready_def demand_ready_def assms c tolerance_config_fields
        tolerance_state example_segment example_profiles priced_def d example_rng_def)
qed

theorem end_turn_contract_witness:
  "(\<exists>s3. play_turn (idle_agent 0) (begin_turn 0 tolerance_sim) = Inr ([''get_status''], s3))
   \<and> \<not> ends_with_end_turn [''get_status'']
   \<and> run_turn example_rng 0 (idle_agent 0) tolerance_sim = Inl ValueError
   \<and> (\<exists>s3. play_turn (example_agent 0) (begin_turn 0 tolerance_sim) = Inr ([''end_turn''], s3)
          \<and> settlement_ready example_rng s3)
   \<and> ends_with_end_turn [''end_turn'']
   \<and> (\<exists>r s'. run_turn example_rng 0 (example_agent 0) tolerance_sim = Inr (r, s'))"
proof -
  obtain s3 where i: "play_turn (idle_agent 0) (begin_turn 0 tolerance_sim) = Inr ([''get_status''], s3)"
    using idle_agent_play by blast
  have ni: "\<not> ends_with_end_turn [''get_status'']" by (simp add: ends_with_end_turn_def)
  from end_turn_contract [OF i, of example_rng] ni
  have 1: "run_turn example_rng 0 (idle_agent 0) tolerance_sim = Inl ValueError" by blast
  obtain s4 where p: "play_turn (example_agent 0) (begin_turn 0 tolerance_sim) = Inr ([''end_turn''], s4)"
    and s4: "state s4 = state tolerance_sim" "config s4 = config tolerance_sim"
    using example_agent_play [of 0 "begin_turn 0 tolerance_sim"] by (auto simp: tolerance_begin)
  have e: "ends_with_end_turn [''end_turn'']" by (simp add: ends_with_end_turn_def)
  from s4 have r: "settlement_ready example_rng s4" by (rule tolerance_ready)
  from end_turn_contract [OF p, of example_rng] e r
  have 2: "\<exists>r s'. run_turn example_rng 0 (example_agent 0) tolerance_sim = Inr (r, s')" by blast
  from i ni 1 p r e 2 show ?thesis by blast
qed

end
